theory Spec2Isabelle
  imports Complex_Main
begin

section \<open>The page: elements, selectors, listeners\<close>

text \<open>
  The widgets of this library are browser scripts. Each one reads and writes the
  document through the DOM interface, and nothing else. The document is modelled as
  the scripts see it:
  \<^item> an element is a reference (\<open>ref\<close>); two references are the same element exactly
    when they are equal (JavaScript's \<open>===\<close> on nodes);
  \<^item> \<open>nodes\<close> lists every element that exists, in tree order; \<open>anc d r\<close> is the chain
    of ancestors of \<open>r\<close>, its parent first. An element is connected to the document when
    the chain ends in the document element \<open>documentElement\<close>; an element that was removed from
    the document still exists, with a chain that does not reach it;
  \<^item> \<open>attr\<close> holds the attributes except \<open>class\<close>, which is the token list
    \<open>classes\<close> (\<open>classList\<close>); \<open>height\<close> is \<open>style.height\<close> in pixels, \<open>rect\<close> the
    height \<open>getBoundingClientRect()\<close> reports, \<open>html\<close> the markup last assigned to
    \<open>innerHTML\<close>;
  \<^item> \<open>active\<close> is \<open>document.activeElement\<close>. A call of \<open>focus()\<close> on a connected
    element makes it the active one; on an element outside the document the call does
    nothing. What the browser itself does with the focus (where it puts it when a dialog
    opens or closes, which connected elements it refuses to focus) is not part of the
    scripts and is not modelled.
\<close>

type_synonym ref = nat

datatype error = TypeError | SyntaxError | InvalidStateError | Error string

text \<open>
  A statement that throws leaves the effects of the statements before it in place, so
  a function that can throw returns the state it reached together with the error.
\<close>

type_synonym 's outcome = "(error \<times> 's) + 's"

definition final :: "'s outcome \<Rightarrow> 's" where
  "final r = (case r of Inl (e, s) \<Rightarrow> s | Inr s \<Rightarrow> s)"

definition thrown :: "'s outcome \<Rightarrow> error option" where
  "thrown r = (case r of Inl (e, s) \<Rightarrow> Some e | Inr s \<Rightarrow> None)"

definition and_then :: "'s outcome \<Rightarrow> ('s \<Rightarrow> 's outcome) \<Rightarrow> 's outcome" where
  "and_then r f = (case r of Inl x \<Rightarrow> Inl x | Inr s \<Rightarrow> f s)"

record dom =
  nodes :: "ref list"
  documentElement :: ref
  anc :: "ref \<Rightarrow> ref list"
  tag :: "ref \<Rightarrow> string"
  attr :: "ref \<Rightarrow> string \<Rightarrow> string option"
  classes :: "ref \<Rightarrow> string list"
  height :: "ref \<Rightarrow> real option"
  rect :: "ref \<Rightarrow> real"
  html :: "ref \<Rightarrow> string option"
  is_modal :: "ref \<Rightarrow> bool"
  active :: "ref option"

definition isConnected :: "dom \<Rightarrow> ref \<Rightarrow> bool" where
  "isConnected d r \<longleftrightarrow> r = documentElement d \<or> documentElement d \<in> set (anc d r)"

definition parentElement :: "dom \<Rightarrow> ref \<Rightarrow> ref option" where
  "parentElement d r = (case anc d r of [] \<Rightarrow> None | p # ps \<Rightarrow> Some p)"

definition setAttribute :: "ref \<Rightarrow> string \<Rightarrow> string \<Rightarrow> dom \<Rightarrow> dom" where
  "setAttribute r a v d = d\<lparr>attr := (attr d)(r := (attr d r)(a \<mapsto> v))\<rparr>"

definition removeAttribute :: "ref \<Rightarrow> string \<Rightarrow> dom \<Rightarrow> dom" where
  "removeAttribute r a d = d\<lparr>attr := (attr d)(r := (attr d r)(a := None))\<rparr>"

definition classList_add :: "ref \<Rightarrow> string \<Rightarrow> dom \<Rightarrow> dom" where
  "classList_add r c d =
     d\<lparr>classes := (classes d)(r := (if c \<in> set (classes d r) then classes d r
                                         else classes d r @ [c]))\<rparr>"

definition classList_remove :: "ref \<Rightarrow> string \<Rightarrow> dom \<Rightarrow> dom" where
  "classList_remove r c d = d\<lparr>classes := (classes d)(r := removeAll c (classes d r))\<rparr>"

definition set_height :: "ref \<Rightarrow> real \<Rightarrow> dom \<Rightarrow> dom" where
  "set_height r h d = d\<lparr>height := (height d)(r := Some h)\<rparr>"

definition set_innerHTML :: "ref \<Rightarrow> string \<Rightarrow> dom \<Rightarrow> dom" where
  "set_innerHTML r m d = d\<lparr>html := (html d)(r := Some m)\<rparr>"

definition focus :: "ref \<Rightarrow> dom \<Rightarrow> dom" where
  "focus r d = (if isConnected d r then d\<lparr>active := Some r\<rparr> else d)"

text \<open>
  The ancestor chains of a document that is a tree agree with one another: the chain of
  an element is its parent followed by the parent's chain.
\<close>

definition well_formed :: "dom \<Rightarrow> bool" where
  "well_formed d =
     list_all (\<lambda>r. case anc d r of [] \<Rightarrow> True
                             | p # ps \<Rightarrow> p \<in> set (nodes d) \<and> ps = anc d p) (nodes d)"

subsection \<open>Selectors\<close>

text \<open>
  The selector strings that the scripts pass to \<open>querySelector\<close>, \<open>querySelectorAll\<close>
  and \<open>closest\<close> are written as terms: \<open>Inside s t\<close> is the descendant combinator
  \<open>s t\<close>, \<open>Either s t\<close> the list \<open>s, t\<close>, \<open>Neg s\<close> is \<open>:not(s)\<close>, \<open>HasAttr a\<close> is
  \<open>[a]\<close> and \<open>AttrIs a v\<close> is \<open>[a="v"]\<close>. Tag names are lower case.
\<close>

datatype selector =
    ByTag string
  | ByClass string
  | ById string
  | HasAttr string
  | AttrIs string string
  | Neg selector
  | Both selector selector
  | Either selector selector
  | Inside selector selector

fun matches :: "dom \<Rightarrow> selector \<Rightarrow> ref \<Rightarrow> bool" where
  "matches d (ByTag t) r = (tag d r = t)"
| "matches d (ByClass c) r = (c \<in> set (classes d r))"
| "matches d (ById i) r = (attr d r ''id'' = Some i)"
| "matches d (HasAttr a) r = (attr d r a \<noteq> None)"
| "matches d (AttrIs a v) r = (attr d r a = Some v)"
| "matches d (Neg s) r = (\<not> matches d s r)"
| "matches d (Both s t) r = (matches d s r \<and> matches d t r)"
| "matches d (Either s t) r = (matches d s r \<or> matches d t r)"
| "matches d (Inside s t) r = (matches d t r \<and> list_ex (matches d s) (anc d r))"

definition first :: "'a list \<Rightarrow> 'a option" where
  "first xs = (case xs of [] \<Rightarrow> None | x # ys \<Rightarrow> Some x)"

text \<open>\<open>document.querySelectorAll\<close> and \<open>document.querySelector\<close>: connected elements only.\<close>

definition doc_querySelectorAll :: "dom \<Rightarrow> selector \<Rightarrow> ref list" where
  "doc_querySelectorAll d s = filter (\<lambda>r. isConnected d r \<and> matches d s r) (nodes d)"

definition doc_querySelector :: "dom \<Rightarrow> selector \<Rightarrow> ref option" where
  "doc_querySelector d s = first (doc_querySelectorAll d s)"

text \<open>\<open>x.querySelectorAll\<close> and \<open>x.querySelector\<close>: the descendants of \<open>x\<close>, connected or not.\<close>

definition querySelectorAll :: "dom \<Rightarrow> ref \<Rightarrow> selector \<Rightarrow> ref list" where
  "querySelectorAll d x s = filter (\<lambda>r. x \<in> set (anc d r) \<and> matches d s r) (nodes d)"

definition querySelector :: "dom \<Rightarrow> ref \<Rightarrow> selector \<Rightarrow> ref option" where
  "querySelector d x s = first (querySelectorAll d x s)"

definition closest :: "dom \<Rightarrow> ref \<Rightarrow> selector \<Rightarrow> ref option" where
  "closest d r s = find (matches d s) (r # anc d r)"

definition document_body :: "dom \<Rightarrow> ref option" where
  "document_body d = find (\<lambda>r. tag d r = ''body'' \<and> anc d r = [documentElement d]) (nodes d)"

text \<open>
  Three selectors are built at run time from a string \<open>x\<close> of the page: \<open>#x\<close>, \<open>.x a\<close>
  and \<open>x\<close> itself. Where \<open>x\<close> is an identifier (ASCII letters, digits, \<open>_\<close> and \<open>-\<close>,
  not starting with a digit, and not with a \<open>-\<close> unless a character other than a digit
  follows it) they select by id, by class and by tag. Any other string is refused with a \<open>SyntaxError\<close>, as the browser
  refuses a malformed selector; strings that the browser would read as a selector of
  another shape are outside this fragment. A template literal prints an absent value
  as \<open>null\<close>.
\<close>

definition ident_char :: "char \<Rightarrow> bool" where
  "ident_char c \<longleftrightarrow>
     c \<in> set ''abcdefghijklmnopqrstuvwxyzABCDEFGHIJKLMNOPQRSTUVWXYZ0123456789_-''"

definition digit_char :: "char \<Rightarrow> bool" where
  "digit_char c \<longleftrightarrow> c \<in> set ''0123456789''"

definition css_ident :: "string \<Rightarrow> bool" where
  "css_ident s =
     (case s of
        [] \<Rightarrow> False
      | c # cs \<Rightarrow>
          list_all ident_char s \<and> \<not> digit_char c \<and>
          (if c = CHR ''-''
           then (case cs of [] \<Rightarrow> False | c' # cs' \<Rightarrow> \<not> digit_char c')
           else True))"

definition template :: "string option \<Rightarrow> string" where
  "template v = (case v of None \<Rightarrow> ''null'' | Some s \<Rightarrow> s)"

definition id_selector :: "string \<Rightarrow> error + selector" where
  "id_selector x = (if css_ident x then Inr (ById x) else Inl SyntaxError)"

definition class_anchor_selector :: "string \<Rightarrow> error + selector" where
  "class_anchor_selector x =
     (if css_ident x then Inr (Inside (ByClass x) (ByTag ''a'')) else Inl SyntaxError)"

definition href_selector :: "string \<Rightarrow> error + selector" where
  "href_selector x =
     (case x of
        [] \<Rightarrow> Inl SyntaxError
      | c # cs \<Rightarrow>
          if c = CHR ''#'' then id_selector cs
          else if css_ident x then Inr (ByTag x)
          else Inl SyntaxError)"

subsection \<open>Listeners and event dispatch\<close>

text \<open>
  \<open>addEventListener\<close> registers a handler for an event type on a target, optionally
  under an abort signal. An event dispatched at an element visits the element, its
  ancestors, the document and the window in this order (the scripts register no
  capturing listener). At each target the listeners registered there for the event's
  type run in the order of registration; a listener that was removed in the meantime
  does not run; after a handler has called \<open>stopPropagation()\<close> the remaining targets
  are not visited. The functions are generic in the widget's state \<open>'s\<close> and handler
  type \<open>'h\<close>: \<open>cur\<close> reads the registered listeners, \<open>stp\<close> the propagation flag, and
  \<open>h\<close> runs a handler.
\<close>

datatype target = Document | Window | Node ref

record event =
  ev_target :: target
  ev_key :: string
  ev_shift :: bool

record 'h listener =
  on_target :: target
  on_type :: string
  run :: 'h
  signal :: "nat option"

definition propagation_path :: "dom \<Rightarrow> target \<Rightarrow> target list" where
  "propagation_path d t =
     (case t of
        Node r \<Rightarrow> map Node (r # anc d r) @ [Document, Window]
      | Document \<Rightarrow> [Document, Window]
      | Window \<Rightarrow> [Window])"

fun run_listeners ::
  "('s \<Rightarrow> 'h listener list) \<Rightarrow> ('h \<Rightarrow> 's \<Rightarrow> 's) \<Rightarrow> 'h listener list \<Rightarrow> 's \<Rightarrow> 's" where
  "run_listeners cur h [] s = s"
| "run_listeners cur h (l # ls) s =
     run_listeners cur h ls (if l \<in> set (cur s) then h (run l) s else s)"

fun dispatch_path ::
  "('s \<Rightarrow> 'h listener list) \<Rightarrow> ('s \<Rightarrow> bool) \<Rightarrow> ('h \<Rightarrow> 's \<Rightarrow> 's) \<Rightarrow> string \<Rightarrow>
   target list \<Rightarrow> 's \<Rightarrow> 's" where
  "dispatch_path cur stp h ty [] s = s"
| "dispatch_path cur stp h ty (t # ts) s =
     (let s' = run_listeners cur h
                 (filter (\<lambda>l. on_target l = t \<and> on_type l = ty) (cur s)) s
      in if stp s' then s' else dispatch_path cur stp h ty ts s')"

definition abort_signal :: "nat option \<Rightarrow> 'h listener list \<Rightarrow> 'h listener list" where
  "abort_signal c ls = (case c of None \<Rightarrow> ls | Some n \<Rightarrow> filter (\<lambda>l. signal l \<noteq> Some n) ls)"

section \<open>Dark mode (DarkMode.astro)\<close>

text \<open>
  The script keeps the preference under the key \<open>darkMode\<close> of \<open>localStorage\<close>.
  \<open>storage\<close> is the store, \<open>set_calls\<close> the calls of \<open>setItem\<close> so far (oldest first),
  \<open>prefers_dark\<close> what \<open>matchMedia("(prefers-color-scheme: dark)").matches\<close> answers.
  The two icons that the script writes into the button are abbreviated to their names.
\<close>

datatype dm_handler = ToggleClick | DarkModeAfterSwap

record darkmode_state =
  dm_page :: dom
  storage :: "string \<Rightarrow> string option"
  set_calls :: "(string \<times> string) list"
  prefers_dark :: bool
  darkMode :: "string option"
  darkModeToggle :: "ref option"
  dm_listeners :: "dm_handler listener list"
  dm_reported :: "error list"

definition setItem :: "string \<Rightarrow> string \<Rightarrow> darkmode_state \<Rightarrow> darkmode_state" where
  "setItem k v s = s\<lparr>storage := (storage s)(k \<mapsto> v), set_calls := set_calls s @ [(k, v)]\<rparr>"

definition enableDarkMode :: "bool \<Rightarrow> darkmode_state \<Rightarrow> darkmode_state outcome" where
  "enableDarkMode store s =
     (case document_body (dm_page s) of
        None \<Rightarrow> Inl (TypeError, s)
      | Some b \<Rightarrow>
          let s1 = s\<lparr>dm_page := classList_add b ''darkmode'' (dm_page s)\<rparr> in
          (case darkModeToggle s1 of
             None \<Rightarrow> Inl (TypeError, s1)
           | Some t \<Rightarrow>
               let s2 = s1\<lparr>dm_page := setAttribute t ''aria-pressed'' ''true''
                                         (set_innerHTML t ''sun-icon'' (dm_page s1))\<rparr>
               in Inr (if store then setItem ''darkMode'' ''enabled'' s2 else s2)))"

definition disableDarkMode :: "bool \<Rightarrow> darkmode_state \<Rightarrow> darkmode_state outcome" where
  "disableDarkMode store s =
     (case document_body (dm_page s) of
        None \<Rightarrow> Inl (TypeError, s)
      | Some b \<Rightarrow>
          let s1 = s\<lparr>dm_page := classList_remove b ''darkmode'' (dm_page s)\<rparr> in
          (case darkModeToggle s1 of
             None \<Rightarrow> Inl (TypeError, s1)
           | Some t \<Rightarrow>
               let s2 = s1\<lparr>dm_page := setAttribute t ''aria-pressed'' ''false''
                                         (set_innerHTML t ''moon-icon'' (dm_page s1))\<rparr>
               in Inr (if store then setItem ''darkMode'' ''disabled'' s2 else s2)))"

definition checkPreference :: "bool \<Rightarrow> darkmode_state \<Rightarrow> darkmode_state outcome" where
  "checkPreference store s =
     (if prefers_dark s then enableDarkMode False s else disableDarkMode store s)"

text \<open>The three-way choice that the script makes at load and again after a view swap.\<close>

definition apply_preference :: "darkmode_state \<Rightarrow> darkmode_state outcome" where
  "apply_preference s =
     (if darkMode s = Some ''enabled'' then enableDarkMode True s
      else if darkMode s = Some ''disabled'' then disableDarkMode True s
      else checkPreference False s)"

definition isDarkMode :: "dom \<Rightarrow> bool" where
  "isDarkMode d =
     (case document_body d of None \<Rightarrow> False | Some b \<Rightarrow> ''darkmode'' \<in> set (classes d b))"

definition toggle_click :: "darkmode_state \<Rightarrow> darkmode_state outcome" where
  "toggle_click s =
     (case document_body (dm_page s) of
        None \<Rightarrow> Inl (TypeError, s)
      | Some b \<Rightarrow>
          if ''darkmode'' \<in> set (classes (dm_page s) b)
          then disableDarkMode True s else enableDarkMode True s)"

definition darkmode_after_swap :: "darkmode_state \<Rightarrow> darkmode_state outcome" where
  "darkmode_after_swap s =
     (let v = storage s ''darkMode'' in
      apply_preference (s\<lparr>darkMode := (if v = None \<or> v = Some [] then None else v)\<rparr>))"

definition dm_add_listener ::
  "target \<Rightarrow> string \<Rightarrow> dm_handler \<Rightarrow> darkmode_state \<Rightarrow> darkmode_state" where
  "dm_add_listener t ty h s =
     s\<lparr>dm_listeners := dm_listeners s @
          [\<lparr>on_target = t, on_type = ty, run = h, signal = None\<rparr>]\<rparr>"

text \<open>
  The script from top to bottom, on a page \<open>d\<close> with the store \<open>st\<close> and the system
  preference \<open>os\<close>.
\<close>

definition darkmode_script ::
  "dom \<Rightarrow> (string \<Rightarrow> string option) \<Rightarrow> bool \<Rightarrow> darkmode_state outcome" where
  "darkmode_script d st os =
     (let s = \<lparr>dm_page = d, storage = st, set_calls = [], prefers_dark = os,
                darkMode = st ''darkMode'',
                darkModeToggle = doc_querySelector d (ByClass ''darkmode-toggle''),
                dm_listeners = [], dm_reported = []\<rparr>
      in and_then (apply_preference s) (\<lambda>s1.
           (case darkModeToggle s1 of
              None \<Rightarrow> Inl (TypeError, s1)
            | Some t \<Rightarrow>
                Inr (dm_add_listener Document ''astro:after-swap'' DarkModeAfterSwap
                      (dm_add_listener (Node t) ''click'' ToggleClick s1)))))"

definition dm_handle :: "dm_handler \<Rightarrow> darkmode_state \<Rightarrow> darkmode_state" where
  "dm_handle h s =
     (let r = (case h of ToggleClick \<Rightarrow> toggle_click s
                       | DarkModeAfterSwap \<Rightarrow> darkmode_after_swap s)
      in (case r of
            Inl (e, s') \<Rightarrow> s'\<lparr>dm_reported := dm_reported s' @ [e]\<rparr>
          | Inr s' \<Rightarrow> s'))"

definition dm_dispatch :: "string \<Rightarrow> event \<Rightarrow> darkmode_state \<Rightarrow> darkmode_state" where
  "dm_dispatch ty ev s =
     dispatch_path dm_listeners (\<lambda>s. False) dm_handle ty
       (propagation_path (dm_page s) (ev_target ev)) s"


section \<open>Accordion (Accordion.astro)\<close>

text \<open>
  \<open>accordionItems\<close> is the array that the script fills once, when it runs, with every
  \<open>.accordion__item\<close> of the document. The two icons are abbreviated to their names.
\<close>

datatype acc_handler = EscapeKeydown | ArrowKeydown

record accordion_state =
  acc_page :: dom
  accordionItems :: "ref list"
  acc_listeners :: "acc_handler listener list"
  acc_prevented :: bool
  acc_reported :: "error list"
  window_toggleAccordionItem :: bool
  window_onresize :: bool

definition getPanelHeight :: "dom \<Rightarrow> ref \<Rightarrow> real" where
  "getPanelHeight d accordionItem =
     (case querySelector d accordionItem (ByClass ''panel__inner'') of
        None \<Rightarrow> 0
      | Some accordionInner \<Rightarrow> rect d accordionInner)"

definition openAccordionItem :: "ref \<Rightarrow> dom \<Rightarrow> dom outcome" where
  "openAccordionItem accordionItem d =
     (let accordionItemHeader = querySelector d accordionItem (ByClass ''accordion__header'');
          accordionToggleIndicator =
            querySelector d accordionItem (ByClass ''header__toggle-indicator'');
          accordionPanel = querySelector d accordionItem (ByClass ''accordion__panel'')
      in case accordionPanel of
           None \<Rightarrow> Inl (TypeError, d)
         | Some p \<Rightarrow>
             let d1 = set_height p (getPanelHeight d accordionItem) d;
                 d2 = classList_add accordionItem ''is-active'' d1
             in (case accordionItemHeader of
                   None \<Rightarrow> Inl (TypeError, d2)
                 | Some h \<Rightarrow>
                     let d3 = setAttribute h ''aria-expanded'' ''true'' d2
                     in (case accordionToggleIndicator of
                           None \<Rightarrow> Inl (TypeError, d3)
                         | Some i \<Rightarrow> Inr (set_innerHTML i ''minus-icon'' d3))))"

text \<open>
  \<open>closeAccordionItem\<close> keeps the order of the source: the test of the panel's parent
  is its last statement.
\<close>

definition closeAccordionItem :: "ref \<Rightarrow> dom \<Rightarrow> dom outcome" where
  "closeAccordionItem accordionItem d =
     (let header = querySelector d accordionItem (ByClass ''accordion__header'');
          toggleIndicator = querySelector d accordionItem (ByClass ''header__toggle-indicator'');
          panel = querySelector d accordionItem (ByClass ''accordion__panel'');
          d1 = classList_remove accordionItem ''is-active'' d
      in case panel of
           None \<Rightarrow> Inl (TypeError, d1)
         | Some p \<Rightarrow>
             let d2 = set_height p 0 d1
             in (case header of
                   None \<Rightarrow> Inl (TypeError, d2)
                 | Some h \<Rightarrow>
                     let d3 = setAttribute h ''aria-expanded'' ''false'' (focus h d2)
                     in (case toggleIndicator of
                           None \<Rightarrow> Inl (TypeError, d3)
                         | Some i \<Rightarrow>
                             let d4 = set_innerHTML i ''plus-icon'' d3
                             in if parentElement d4 p = None then Inr d4 else Inr d4)))"

definition isAccordionOpen :: "dom \<Rightarrow> ref \<Rightarrow> bool" where
  "isAccordionOpen d accordionItem \<longleftrightarrow> ''is-active'' \<in> set (classes d accordionItem)"

text \<open>\<open>toggleAccordionItem\<close> reads the event being handled from the global \<open>event\<close>.\<close>

definition toggleAccordionItem :: "event \<Rightarrow> dom \<Rightarrow> dom outcome" where
  "toggleAccordionItem ev d =
     (case ev_target ev of
        Node t \<Rightarrow>
          (case closest d t (ByClass ''accordion__item'') of
             None \<Rightarrow> Inr d
           | Some accordionItem \<Rightarrow>
               if isAccordionOpen d accordionItem then closeAccordionItem accordionItem d
               else openAccordionItem accordionItem d)
      | Document \<Rightarrow> Inl (TypeError, d)
      | Window \<Rightarrow> Inl (TypeError, d))"

fun recalculate_each :: "ref list \<Rightarrow> dom \<Rightarrow> dom outcome" where
  "recalculate_each [] d = Inr d"
| "recalculate_each (item # items) d =
     (case querySelector d item (ByClass ''accordion__panel'') of
        None \<Rightarrow> Inl (TypeError, d)
      | Some panel \<Rightarrow> recalculate_each items (set_height panel (getPanelHeight d item) d))"

definition recalculateHeight :: "accordion_state \<Rightarrow> dom outcome" where
  "recalculateHeight s =
     recalculate_each
       (filter (\<lambda>item. ''is-active'' \<in> set (classes (acc_page s) item)) (accordionItems s))
       (acc_page s)"

fun decimal :: "nat \<Rightarrow> string" where
  "decimal n =
     (if n < 10 then [''0123456789'' ! n]
      else decimal (n div 10) @ [''0123456789'' ! (n mod 10)])"

declare decimal.simps [simp del]

text \<open>The loop that numbers the items; \<open>index\<close> counts from 0.\<close>

fun assign_ids :: "nat \<Rightarrow> ref list \<Rightarrow> dom \<Rightarrow> dom outcome" where
  "assign_ids index [] d = Inr d"
| "assign_ids index (item # items) d =
     (let header = querySelector d item (ByClass ''accordion__header'');
          panel = querySelector d item (ByClass ''accordion__panel'')
      in case header of
           None \<Rightarrow> Inl (TypeError, d)
         | Some h \<Rightarrow>
             let d1 = setAttribute h ''id'' (''accordion-item'' @ decimal (index + 1)) d
             in (case panel of
                   None \<Rightarrow> Inl (TypeError, d1)
                 | Some p \<Rightarrow>
                     assign_ids (index + 1) items
                       (setAttribute p ''aria-labelledby''
                          (''accordion-item'' @ decimal (index + 1))
                          (setAttribute h ''aria-controls'' (''item'' @ decimal (index + 1))
                             (setAttribute p ''id'' (''item'' @ decimal (index + 1)) d1)))))"

text \<open>
  \<open>indexOf\<close> answers \<open>-1\<close> for a value that is not in the array, and reading an array
  outside its bounds gives \<open>undefined\<close>.
\<close>

fun index_from :: "int \<Rightarrow> 'a list \<Rightarrow> 'a \<Rightarrow> int" where
  "index_from i [] x = - 1"
| "index_from i (y # ys) x = (if y = x then i else index_from (i + 1) ys x)"

definition indexOf :: "'a list \<Rightarrow> 'a option \<Rightarrow> int" where
  "indexOf xs v = (case v of None \<Rightarrow> - 1 | Some x \<Rightarrow> index_from 0 xs x)"

definition at_index :: "'a list \<Rightarrow> int \<Rightarrow> 'a option" where
  "at_index xs i = (if 0 \<le> i \<and> i < int (length xs) then Some (xs ! nat i) else None)"

definition escape_keydown :: "event \<Rightarrow> accordion_state \<Rightarrow> accordion_state outcome" where
  "escape_keydown ev s =
     (case ev_target ev of
        Node t \<Rightarrow>
          (case closest (acc_page s) t (ByClass ''accordion__item'') of
             None \<Rightarrow> Inr s
           | Some accordionItem \<Rightarrow>
               if ev_key ev \<noteq> ''Escape'' then Inr s
               else if isAccordionOpen (acc_page s) accordionItem
               then (case closeAccordionItem accordionItem (acc_page s) of
                       Inl (e, d) \<Rightarrow> Inl (e, s\<lparr>acc_page := d\<rparr>)
                     | Inr d \<Rightarrow> Inr (s\<lparr>acc_page := d\<rparr>))
               else Inr s)
      | Document \<Rightarrow> Inl (TypeError, s)
      | Window \<Rightarrow> Inl (TypeError, s))"

definition targetItem :: "accordion_state \<Rightarrow> int \<Rightarrow> string \<Rightarrow> ref option" where
  "targetItem s index k =
     (if k = ''ArrowDown''
      then (if index < int (length (accordionItems s)) - 1
            then at_index (accordionItems s) (index + 1) else None)
      else if k = ''ArrowUp''
      then (if index > 0 then at_index (accordionItems s) (index - 1) else None)
      else None)"

definition arrow_keydown :: "event \<Rightarrow> accordion_state \<Rightarrow> accordion_state outcome" where
  "arrow_keydown ev s =
     (case ev_target ev of
        Node t \<Rightarrow>
          (case closest (acc_page s) t (ByClass ''accordion__header'') of
             None \<Rightarrow> Inr s
           | Some targetElement \<Rightarrow>
               (case closest (acc_page s) targetElement (ByClass ''accordion__wrapper'') of
                  None \<Rightarrow> Inl (TypeError, s)
                | Some accordionWrapper \<Rightarrow>
                    let index =
                          indexOf
                            (querySelectorAll (acc_page s) accordionWrapper
                               (ByClass ''accordion__item''))
                            (closest (acc_page s) targetElement (ByClass ''accordion__item''))
                    in (case targetItem s index (ev_key ev) of
                          None \<Rightarrow> Inr s
                        | Some target \<Rightarrow>
                            let s1 = s\<lparr>acc_prevented := True\<rparr>
                            in (case querySelector (acc_page s1) target
                                       (ByClass ''accordion__header'') of
                                  None \<Rightarrow> Inl (TypeError, s1)
                                | Some h \<Rightarrow>
                                    Inr (s1\<lparr>acc_page := focus h (acc_page s1)\<rparr>)))))
      | Document \<Rightarrow> Inl (TypeError, s)
      | Window \<Rightarrow> Inl (TypeError, s))"

definition acc_add_listener ::
  "target \<Rightarrow> string \<Rightarrow> acc_handler \<Rightarrow> accordion_state \<Rightarrow> accordion_state" where
  "acc_add_listener t ty h s =
     s\<lparr>acc_listeners := acc_listeners s @
          [\<lparr>on_target = t, on_type = ty, run = h, signal = None\<rparr>]\<rparr>"

text \<open>The script from top to bottom, on a page \<open>d\<close>.\<close>

definition accordion_script :: "dom \<Rightarrow> accordion_state outcome" where
  "accordion_script d =
     (let s = \<lparr>acc_page = d,
                accordionItems = doc_querySelectorAll d (ByClass ''accordion__item''),
                acc_listeners = [], acc_prevented = False, acc_reported = [],
                window_toggleAccordionItem = False, window_onresize = False\<rparr>
      in case assign_ids 0 (accordionItems s) d of
           Inl (e, d1) \<Rightarrow> Inl (e, s\<lparr>acc_page := d1\<rparr>)
         | Inr d1 \<Rightarrow>
             Inr ((acc_add_listener Document ''keydown'' ArrowKeydown
                    (acc_add_listener Document ''keydown'' EscapeKeydown
                       (s\<lparr>acc_page := d1\<rparr>)))
                  \<lparr>window_toggleAccordionItem := True, window_onresize := True\<rparr>))"

definition acc_handle :: "event \<Rightarrow> acc_handler \<Rightarrow> accordion_state \<Rightarrow> accordion_state" where
  "acc_handle ev h s =
     (let r = (case h of EscapeKeydown \<Rightarrow> escape_keydown ev s
                       | ArrowKeydown \<Rightarrow> arrow_keydown ev s)
      in (case r of
            Inl (e, s') \<Rightarrow> s'\<lparr>acc_reported := acc_reported s' @ [e]\<rparr>
          | Inr s' \<Rightarrow> s'))"

definition acc_dispatch :: "string \<Rightarrow> event \<Rightarrow> accordion_state \<Rightarrow> accordion_state" where
  "acc_dispatch ty ev s =
     dispatch_path acc_listeners (\<lambda>s. False) (acc_handle ev) ty
       (propagation_path (acc_page s) (ev_target ev)) (s\<lparr>acc_prevented := False\<rparr>)"

section \<open>Skip links (SkipLinks.astro)\<close>

text \<open>
  The script starts by reading \<open>this.dataset.classname\<close>. What \<open>this\<close> is depends on
  how the page loads the script, so the model takes it as a parameter: \<open>undefined\<close> (the
  top level of a module, which is how the component writes its script tag), the window
  (a classic script), or an element. \<open>dataset.classname\<close> of an element is its
  \<open>data-classname\<close> attribute, \<open>undefined\<close> when the attribute is absent. The
  component's template writes the attribute as \<open>data-classname='{className}'\<close>.
\<close>

datatype this_value = ThisUndefined | ThisWindow | ThisElement ref

datatype sl_handler = SkipLinkKeydown

record skiplinks_state =
  sl_page :: dom
  skipLink :: "ref option"
  sl_listeners :: "sl_handler listener list"
  console_warnings :: "string list"
  sl_reported :: "error list"

definition dataset_classname :: "dom \<Rightarrow> this_value \<Rightarrow> error + string" where
  "dataset_classname d this =
     (case this of
        ThisUndefined \<Rightarrow> Inl TypeError
      | ThisWindow \<Rightarrow> Inl TypeError
      | ThisElement r \<Rightarrow>
          Inr (case attr d r ''data-classname'' of None \<Rightarrow> ''undefined'' | Some v \<Rightarrow> v))"

definition skiplink_keydown :: "event \<Rightarrow> skiplinks_state \<Rightarrow> skiplinks_state outcome" where
  "skiplink_keydown ev s =
     (case ev_target ev of
        Node t \<Rightarrow>
          (case closest (sl_page s) t (ByTag ''a'') of
             None \<Rightarrow> Inr s
           | Some a \<Rightarrow>
               if ev_key ev \<noteq> ''Enter'' then Inr s
               else
                 (case href_selector (template (attr (sl_page s) t ''href'')) of
                    Inl e \<Rightarrow> Inl (e, s)
                  | Inr sel \<Rightarrow>
                      (case doc_querySelector (sl_page s) sel of
                         Some targetElement \<Rightarrow>
                           Inr (s\<lparr>sl_page := focus targetElement
                                   (setAttribute targetElement ''tabindex'' ''-1'' (sl_page s))\<rparr>)
                       | None \<Rightarrow>
                           (case doc_querySelector (sl_page s) (ByTag ''h1'') of
                              Some h1 \<Rightarrow>
                                Inr (s\<lparr>sl_page := focus h1
                                        (setAttribute h1 ''tabindex'' ''-1'' (sl_page s))\<rparr>)
                            | None \<Rightarrow>
                                Inr (s\<lparr>console_warnings := console_warnings s @
                                       [''SkipLinks are not set'']\<rparr>)))))
      | Document \<Rightarrow> Inl (TypeError, s)
      | Window \<Rightarrow> Inl (TypeError, s))"

text \<open>The script from top to bottom, on a page \<open>d\<close>.\<close>

definition skiplinks_script :: "this_value \<Rightarrow> dom \<Rightarrow> skiplinks_state outcome" where
  "skiplinks_script this d =
     (let s = \<lparr>sl_page = d, skipLink = None, sl_listeners = [], console_warnings = [],
                sl_reported = []\<rparr>
      in case dataset_classname d this of
           Inl e \<Rightarrow> Inl (e, s)
         | Inr classname \<Rightarrow>
             (case class_anchor_selector classname of
                Inl e \<Rightarrow> Inl (e, s)
              | Inr sel \<Rightarrow>
                  (case doc_querySelector d sel of
                     None \<Rightarrow> Inr s
                   | Some a \<Rightarrow>
                       Inr (s\<lparr>skipLink := Some a,
                              sl_listeners :=
                                [\<lparr>on_target = Node a, on_type = ''keydown'',
                                  run = SkipLinkKeydown, signal = None\<rparr>]\<rparr>))))"

definition sl_handle :: "event \<Rightarrow> sl_handler \<Rightarrow> skiplinks_state \<Rightarrow> skiplinks_state" where
  "sl_handle ev h s =
     (case skiplink_keydown ev s of
        Inl (e, s') \<Rightarrow> s'\<lparr>sl_reported := sl_reported s' @ [e]\<rparr>
      | Inr s' \<Rightarrow> s')"

definition sl_dispatch :: "string \<Rightarrow> event \<Rightarrow> skiplinks_state \<Rightarrow> skiplinks_state" where
  "sl_dispatch ty ev s =
     dispatch_path sl_listeners (\<lambda>s. False) (sl_handle ev) ty
       (propagation_path (sl_page s) (ev_target ev)) s"

section \<open>Modal dialog (Modal.astro)\<close>

text \<open>
  \<open>modals\<close> is the list that the script fills once, when it runs, with every \<open>.modal\<close>
  of the document. An \<open>AbortController\<close> is a number; \<open>controllers\<close> counts those
  created so far. Aborting a controller removes the listeners registered under its
  signal. \<open>showModal()\<close> and \<open>close()\<close> exist on \<open>dialog\<close> elements only.
\<close>

datatype modal_handler =
    OpenModal ref
  | CloseModal
  | TrapFocus ref
  | EscapeClose
  | BackdropClose
  | StopPropagation
  | ModalAfterSwap

record modal_state =
  m_page :: dom
  modals :: "ref list"
  trapFocusController :: "nat option"
  keydownController :: "nat option"
  controllers :: nat
  m_listeners :: "modal_handler listener list"
  window_close :: "modal_handler option"
  m_prevented :: bool
  m_stopped :: bool
  m_reported :: "error list"

definition focusable_selector :: selector where
  "focusable_selector =
     Either (ByTag ''a'') (Either (ByTag ''button'') (Either (ByTag ''input'')
       (Either (ByTag ''textarea'') (Either (ByTag ''select'') (Either (ByTag ''details'')
         (Both (HasAttr ''tabindex'') (Neg (AttrIs ''tabindex'' ''-1''))))))))"

definition getKeyboardFocusableElements :: "dom \<Rightarrow> ref \<Rightarrow> ref list" where
  "getKeyboardFocusableElements d element =
     filter (\<lambda>el. attr d el ''disabled'' = None) (querySelectorAll d element focusable_selector)"

definition last_of :: "'a list \<Rightarrow> 'a option" where
  "last_of xs = (case xs of [] \<Rightarrow> None | y # ys \<Rightarrow> Some (last xs))"

text \<open>
  In \<open>trapFocus\<close> the first and the last focusable element are \<open>undefined\<close> when the
  list is empty; \<open>activeElement\<close> is never identical to \<open>undefined\<close>.
\<close>

definition trapFocus :: "event \<Rightarrow> ref \<Rightarrow> modal_state \<Rightarrow> modal_state" where
  "trapFocus ev modal s =
     (let focusables = getKeyboardFocusableElements (m_page s) modal;
          firstFocusable = first focusables;
          lastFocusable = last_of focusables;
          s1 = (case lastFocusable of
                  None \<Rightarrow> s
                | Some l \<Rightarrow>
                    if active (m_page s) = Some l \<and> ev_key ev = ''Tab'' \<and> \<not> ev_shift ev
                    then (case firstFocusable of
                            None \<Rightarrow> s
                          | Some f \<Rightarrow> s\<lparr>m_prevented := True, m_page := focus f (m_page s)\<rparr>)
                    else s)
      in (case firstFocusable of
            None \<Rightarrow> s1
          | Some f \<Rightarrow>
              if active (m_page s1) = Some f \<and> ev_key ev = ''Tab'' \<and> ev_shift ev
              then (case lastFocusable of
                      None \<Rightarrow> s1
                    | Some l \<Rightarrow> s1\<lparr>m_prevented := True, m_page := focus l (m_page s1)\<rparr>)
              else s1))"

definition showModal :: "ref \<Rightarrow> dom \<Rightarrow> dom outcome" where
  "showModal m d =
     (if tag d m \<noteq> ''dialog'' then Inl (TypeError, d)
      else if attr d m ''open'' \<noteq> None
      then (if is_modal d m then Inr d else Inl (InvalidStateError, d))
      else if \<not> isConnected d m then Inl (InvalidStateError, d)
      else Inr ((setAttribute m ''open'' [] d)\<lparr>is_modal := (is_modal d)(m := True)\<rparr>))"

definition close_dialog :: "ref \<Rightarrow> dom \<Rightarrow> dom outcome" where
  "close_dialog m d =
     (if tag d m \<noteq> ''dialog'' then Inl (TypeError, d)
      else if attr d m ''open'' = None then Inr d
      else Inr ((removeAttribute m ''open'' d)\<lparr>is_modal := (is_modal d)(m := False)\<rparr>))"

text \<open>
  \<open>addEventListener\<close> ignores a registration whose target, type and callback are those
  of a listener already there. \<open>closeModal\<close> is one function, registered by name; the
  other callbacks are arrow functions, a new one at every registration.
\<close>

definition m_add_listener ::
  "target \<Rightarrow> string \<Rightarrow> modal_handler \<Rightarrow> nat option \<Rightarrow> modal_state \<Rightarrow> modal_state" where
  "m_add_listener t ty h c s =
     (if h = CloseModal \<and>
         list_ex (\<lambda>l. on_target l = t \<and> on_type l = ty \<and> run l = CloseModal) (m_listeners s)
      then s
      else s\<lparr>m_listeners := m_listeners s @
                [\<lparr>on_target = t, on_type = ty, run = h, signal = c\<rparr>]\<rparr>)"

definition openModal :: "ref \<Rightarrow> modal_state \<Rightarrow> modal_state outcome" where
  "openModal modal s =
     (let modalTitle = querySelector (m_page s) modal (ByTag ''h3'');
          modalInner = querySelector (m_page s) modal (ByClass ''modal__inner'')
      in case showModal modal (m_page s) of
           Inl (e, d) \<Rightarrow> Inl (e, s\<lparr>m_page := d\<rparr>)
         | Inr d \<Rightarrow>
             (case modalTitle of
                None \<Rightarrow> Inl (TypeError, s\<lparr>m_page := d\<rparr>)
              | Some title \<Rightarrow>
                  let s1 = s\<lparr>m_page := focus title d,
                             trapFocusController := Some (controllers s),
                             keydownController := Some (controllers s + 1),
                             controllers := controllers s + 2\<rparr>;
                      s2 = m_add_listener (Node modal) ''click'' BackdropClose
                             (keydownController s1)
                             (m_add_listener (Node modal) ''keydown'' EscapeClose
                                (keydownController s1)
                                (m_add_listener Document ''keydown'' (TrapFocus modal)
                                   (trapFocusController s1) s1))
                  in (case modalInner of
                        None \<Rightarrow> Inl (TypeError, s2)
                      | Some inner \<Rightarrow>
                          Inr (m_add_listener (Node inner) ''click'' StopPropagation
                                 (keydownController s2) s2))))"

text \<open>One round of the loop of \<open>closeModal\<close>, and the loop over the tracked dialogs.\<close>

definition close_one :: "ref \<Rightarrow> modal_state \<Rightarrow> modal_state outcome" where
  "close_one modal s =
     (case id_selector (template (attr (m_page s) modal ''aria-labelledby'')) of
        Inl e \<Rightarrow> Inl (e, s)
      | Inr sel \<Rightarrow>
          (case doc_querySelector (m_page s) sel of
             None \<Rightarrow> Inl (TypeError, s)
           | Some modalTrigger \<Rightarrow>
               (case close_dialog modal (focus modalTrigger (m_page s)) of
                  Inl (e, d) \<Rightarrow> Inl (e, s\<lparr>m_page := d\<rparr>)
                | Inr d \<Rightarrow>
                    Inr (s\<lparr>m_page := d,
                           m_listeners :=
                             abort_signal (keydownController s)
                               (abort_signal (trapFocusController s) (m_listeners s))\<rparr>))))"

fun close_each :: "ref list \<Rightarrow> modal_state \<Rightarrow> modal_state outcome" where
  "close_each [] s = Inr s"
| "close_each (modal # rest) s = and_then (close_one modal s) (close_each rest)"

definition closeModal :: "modal_state \<Rightarrow> modal_state outcome" where
  "closeModal s = close_each (modals s) s"

text \<open>
  One round of the loop that binds a dialog to its trigger and its close button, and
  the loop. The message of the error is abbreviated to the id it names.
\<close>

definition bind_one :: "ref \<Rightarrow> modal_state \<Rightarrow> modal_state outcome" where
  "bind_one modal s =
     (let modalId = attr (m_page s) modal ''aria-labelledby'';
          modalCloseButton =
            querySelector (m_page s) modal (Inside (ByClass ''modal__close'') (ByTag ''button''))
      in case id_selector (template modalId) of
           Inl e \<Rightarrow> Inl (e, s)
         | Inr sel \<Rightarrow>
             (case doc_querySelector (m_page s) sel of
                None \<Rightarrow> Inl (Error (''Trigger element not found: '' @ template modalId), s)
              | Some modalTrigger \<Rightarrow>
                  let s1 = m_add_listener (Node modalTrigger) ''click'' (OpenModal modal) None s
                  in (case modalCloseButton of
                        None \<Rightarrow> Inl (TypeError, s1)
                      | Some b \<Rightarrow> Inr (m_add_listener (Node b) ''click'' CloseModal None s1))))"

fun bind_each :: "ref list \<Rightarrow> modal_state \<Rightarrow> modal_state outcome" where
  "bind_each [] s = Inr s"
| "bind_each (modal # rest) s = and_then (bind_one modal s) (bind_each rest)"

text \<open>
  The handler of \<open>astro:after-swap\<close> collects the dialogs of the document in a variable
  of its own and binds them.
\<close>

definition modal_after_swap :: "modal_state \<Rightarrow> modal_state outcome" where
  "modal_after_swap s = bind_each (doc_querySelectorAll (m_page s) (ByClass ''modal'')) s"

text \<open>The script from top to bottom, on a page \<open>d\<close>.\<close>

definition modal_script :: "dom \<Rightarrow> modal_state outcome" where
  "modal_script d =
     (let s = \<lparr>m_page = d, modals = doc_querySelectorAll d (ByClass ''modal''),
                trapFocusController = None, keydownController = None, controllers = 0,
                m_listeners = [], window_close = None, m_prevented = False,
                m_stopped = False, m_reported = []\<rparr>
      in and_then (bind_each (modals s) s)
           (\<lambda>s1. Inr (m_add_listener Document ''astro:after-swap'' ModalAfterSwap None
                         (s1\<lparr>window_close := Some CloseModal\<rparr>))))"

definition m_handle :: "event \<Rightarrow> modal_handler \<Rightarrow> modal_state \<Rightarrow> modal_state" where
  "m_handle ev h s =
     (let r = (case h of
                 OpenModal modal \<Rightarrow> openModal modal s
               | CloseModal \<Rightarrow> closeModal s
               | TrapFocus modal \<Rightarrow> Inr (trapFocus ev modal s)
               | EscapeClose \<Rightarrow> (if ev_key ev = ''Escape'' then closeModal s else Inr s)
               | BackdropClose \<Rightarrow> closeModal s
               | StopPropagation \<Rightarrow> Inr (s\<lparr>m_stopped := True\<rparr>)
               | ModalAfterSwap \<Rightarrow> modal_after_swap s)
      in (case r of
            Inl (e, s') \<Rightarrow> s'\<lparr>m_reported := m_reported s' @ [e]\<rparr>
          | Inr s' \<Rightarrow> s'))"

definition m_dispatch :: "string \<Rightarrow> event \<Rightarrow> modal_state \<Rightarrow> modal_state" where
  "m_dispatch ty ev s =
     dispatch_path m_listeners m_stopped (m_handle ev) ty
       (propagation_path (m_page s) (ev_target ev))
       (s\<lparr>m_prevented := False, m_stopped := False\<rparr>)"

section \<open>Observations used in the properties\<close>

text \<open>
  The state of an accordion item as the page shows it: whether the item carries the
  class \<open>is-active\<close>, the \<open>aria-expanded\<close> attribute of its header and the height of
  its panel, the header and the panel being the ones that \<open>querySelector\<close> finds in the
  item.
\<close>

definition item_state :: "dom \<Rightarrow> ref \<Rightarrow> bool \<times> string option \<times> real option" where
  "item_state d item =
     (isAccordionOpen d item,
      (case querySelector d item (ByClass ''accordion__header'') of
         None \<Rightarrow> None | Some h \<Rightarrow> attr d h ''aria-expanded''),
      (case querySelector d item (ByClass ''accordion__panel'') of
         None \<Rightarrow> None | Some p \<Rightarrow> height d p))"

text \<open>
  The markup that the accordion expects of an item
  (\<open>.accordion__item > .accordion__header + .accordion__panel\<close>): the header and
  the panel found in the item are its children.
\<close>

definition item_markup :: "dom \<Rightarrow> ref \<Rightarrow> bool" where
  "item_markup d item \<longleftrightarrow>
     (case querySelector d item (ByClass ''accordion__header'') of
        None \<Rightarrow> False | Some h \<Rightarrow> parentElement d h = Some item) \<and>
     (case querySelector d item (ByClass ''accordion__panel'') of
        None \<Rightarrow> False | Some p \<Rightarrow> parentElement d p = Some item)"

text \<open>A \<open>keydown\<close> event at an element, and the event that announces a view swap.\<close>

definition keydown_at :: "ref \<Rightarrow> string \<Rightarrow> bool \<Rightarrow> event" where
  "keydown_at r k shift = \<lparr>ev_target = Node r, ev_key = k, ev_shift = shift\<rparr>"

definition swap_event :: event where
  "swap_event = \<lparr>ev_target = Document, ev_key = [], ev_shift = False\<rparr>"

text \<open>The user, or the browser, moving the focus to an element.\<close>

definition acc_focused_on :: "ref \<Rightarrow> accordion_state \<Rightarrow> accordion_state" where
  "acc_focused_on r s = s\<lparr>acc_page := (acc_page s)\<lparr>active := Some r\<rparr>\<rparr>"

definition m_focused_on :: "ref \<Rightarrow> modal_state \<Rightarrow> modal_state" where
  "m_focused_on r s = s\<lparr>m_page := (m_page s)\<lparr>active := Some r\<rparr>\<rparr>"

text \<open>
  The trigger of a dialog as \<open>closeModal\<close> and the binding loop look it up: the first
  element of the document whose id is the dialog's \<open>aria-labelledby\<close>.
\<close>

definition trigger_of :: "dom \<Rightarrow> ref \<Rightarrow> ref option" where
  "trigger_of d modal =
     (case id_selector (template (attr d modal ''aria-labelledby'')) of
        Inl e \<Rightarrow> None
      | Inr sel \<Rightarrow> doc_querySelector d sel)"

text \<open>
  Two notions for the proofs: the attributes that a selector reads, and two documents
  that are the same tree with the same tags and classes.
\<close>

fun attrs_read :: "selector \<Rightarrow> string list" where
  "attrs_read (ByTag t) = []"
| "attrs_read (ByClass c) = []"
| "attrs_read (ById i) = [''id'']"
| "attrs_read (HasAttr a) = [a]"
| "attrs_read (AttrIs a v) = [a]"
| "attrs_read (Neg s) = attrs_read s"
| "attrs_read (Both s t) = attrs_read s @ attrs_read t"
| "attrs_read (Either s t) = attrs_read s @ attrs_read t"
| "attrs_read (Inside s t) = attrs_read s @ attrs_read t"

definition same_tree :: "dom \<Rightarrow> dom \<Rightarrow> bool" where
  "same_tree d d' \<longleftrightarrow>
     nodes d' = nodes d \<and> documentElement d' = documentElement d \<and> anc d' = anc d \<and>
     tag d' = tag d \<and> classes d' = classes d"

text \<open>
  Three notions for the proofs about the modal script: what the binding loop leaves
  unchanged, what the closing loop leaves unchanged, and the four listeners that
  \<open>openModal\<close> registers, the first under the signal of the focus trap, the others under
  the signal of the keyboard controller.
\<close>

definition m_frame :: "modal_state \<Rightarrow> modal_state \<Rightarrow> bool" where
  "m_frame s s' \<longleftrightarrow>
     m_page s' = m_page s \<and> modals s' = modals s \<and>
     trapFocusController s' = trapFocusController s \<and>
     keydownController s' = keydownController s \<and>
     controllers s' = controllers s \<and> window_close s' = window_close s \<and>
     m_reported s' = m_reported s \<and>
     set (m_listeners s) \<subseteq> set (m_listeners s')"

definition closing :: "modal_state \<Rightarrow> modal_state \<Rightarrow> bool" where
  "closing s s' \<longleftrightarrow>
     same_tree (m_page s) (m_page s') \<and>
     (\<forall>r a. a \<noteq> ''open'' \<longrightarrow> attr (m_page s') r a = attr (m_page s) r a) \<and>
     (\<forall>r. attr (m_page s) r ''open'' = None \<longrightarrow> attr (m_page s') r ''open'' = None) \<and>
     modals s' = modals s \<and> trapFocusController s' = trapFocusController s \<and>
     keydownController s' = keydownController s \<and> controllers s' = controllers s \<and>
     m_reported s' = m_reported s \<and> m_prevented s' = m_prevented s \<and>
     m_stopped s' = m_stopped s \<and> window_close s' = window_close s"

definition opened_listeners :: "ref \<Rightarrow> ref \<Rightarrow> nat \<Rightarrow> modal_handler listener list" where
  "opened_listeners m inner c =
     [\<lparr>on_target = Document, on_type = ''keydown'', run = TrapFocus m, signal = Some c\<rparr>,
      \<lparr>on_target = Node m, on_type = ''keydown'', run = EscapeClose, signal = Some (c + 1)\<rparr>,
      \<lparr>on_target = Node m, on_type = ''click'', run = BackdropClose, signal = Some (c + 1)\<rparr>,
      \<lparr>on_target = Node inner, on_type = ''click'', run = StopPropagation,
        signal = Some (c + 1)\<rparr>]"

text \<open>
  The modal script is idle when no dialog is open under its control: every tracked
  element is a dialog whose trigger is in the document, and no listener is registered
  under an abort signal or for \<open>keydown\<close>. This is the state after the script has run
  on a page whose elements of class \<open>modal\<close> are dialogs, and the state after every
  \<open>closeModal\<close> that follows an \<open>openModal\<close>.
\<close>

definition idle :: "modal_state \<Rightarrow> bool" where
  "idle s \<longleftrightarrow>
     list_all (\<lambda>m. tag (m_page s) m = ''dialog'' \<and> trigger_of (m_page s) m \<noteq> None)
       (modals s) \<and>
     list_all (\<lambda>l. signal l = None \<and> on_type l \<noteq> ''keydown'') (m_listeners s)"

text \<open>
  A dialog is bound in a state when its trigger carries a click listener that opens
  the dialog and its close button a click listener that runs \<open>closeModal\<close>.
\<close>

definition bound_to :: "modal_state \<Rightarrow> dom \<Rightarrow> ref \<Rightarrow> bool" where
  "bound_to s d m \<longleftrightarrow>
     (case trigger_of d m of
        None \<Rightarrow> False
      | Some t \<Rightarrow>
          \<lparr>on_target = Node t, on_type = ''click'', run = OpenModal m, signal = None\<rparr>
            \<in> set (m_listeners s)) \<and>
     (case querySelector d m (Inside (ByClass ''modal__close'') (ByTag ''button'')) of
        None \<Rightarrow> False
      | Some b \<Rightarrow>
          list_ex (\<lambda>l. on_target l = Node b \<and> on_type l = ''click'' \<and> run l = CloseModal)
            (m_listeners s))"

text \<open>
  The view swap of the host page: the new document takes the place of the old one. The
  elements of the old document still exist, outside the document; the scripts' variables
  may still refer to them. The two documents share no element.
\<close>

definition view_swap :: "dom \<Rightarrow> dom \<Rightarrow> dom" where
  "view_swap old new =
     \<lparr>nodes = nodes old @ nodes new,
      documentElement = documentElement new,
      anc = (\<lambda>r. if r \<in> set (nodes new) then anc new r else anc old r),
      tag = (\<lambda>r. if r \<in> set (nodes new) then tag new r else tag old r),
      attr = (\<lambda>r. if r \<in> set (nodes new) then attr new r else attr old r),
      classes = (\<lambda>r. if r \<in> set (nodes new) then classes new r else classes old r),
      height = (\<lambda>r. if r \<in> set (nodes new) then height new r else height old r),
      rect = (\<lambda>r. if r \<in> set (nodes new) then rect new r else rect old r),
      html = (\<lambda>r. if r \<in> set (nodes new) then html new r else html old r),
      is_modal = (\<lambda>r. if r \<in> set (nodes new) then is_modal new r else is_modal old r),
      active = None\<rparr>"

section \<open>Example pages\<close>

text \<open>
  Small concrete pages on which the properties below are evaluated. Element 0 is the
  document element and element 1 the body.
\<close>

definition page ::
  "ref list \<Rightarrow> (ref \<Rightarrow> ref list) \<Rightarrow> (ref \<Rightarrow> string) \<Rightarrow> (ref \<Rightarrow> string \<Rightarrow> string option) \<Rightarrow>
   (ref \<Rightarrow> string list) \<Rightarrow> dom" where
  "page ns ancs tags attrs cls =
     \<lparr>nodes = ns, documentElement = 0, anc = ancs, tag = tags, attr = attrs, classes = cls,
      height = (\<lambda>r. None), rect = (\<lambda>r. 0), html = (\<lambda>r. None), is_modal = (\<lambda>r. False),
      active = None\<rparr>"

text \<open>A page with the dark-mode button (element 2).\<close>

definition darkmode_page :: dom where
  "darkmode_page =
     page [0, 1, 2]
       ((\<lambda>r. [])(1 := [0], 2 := [1, 0]))
       ((\<lambda>r. [])(0 := ''html'', 1 := ''body'', 2 := ''button''))
       ((\<lambda>r. Map.empty)(2 := [''aria-pressed'' \<mapsto> ''false'']))
       ((\<lambda>r. [])(2 := [''darkmode-toggle'']))"

text \<open>
  A page with one accordion of two items (4 and 9). Each item has a header (5, 10)
  holding the toggle indicator (6, 11) and a panel (7, 12) holding the inner block
  (8, 13).
\<close>

definition accordion_page :: dom where
  "accordion_page =
     (page [0, 1, 2, 3, 4, 5, 6, 7, 8, 9, 10, 11, 12, 13]
       ((\<lambda>r. [])(1 := [0], 2 := [1, 0], 3 := [2, 1, 0],
          4 := [3, 2, 1, 0], 5 := [4, 3, 2, 1, 0], 6 := [5, 4, 3, 2, 1, 0],
          7 := [4, 3, 2, 1, 0], 8 := [7, 4, 3, 2, 1, 0],
          9 := [3, 2, 1, 0], 10 := [9, 3, 2, 1, 0], 11 := [10, 9, 3, 2, 1, 0],
          12 := [9, 3, 2, 1, 0], 13 := [12, 9, 3, 2, 1, 0]))
       ((\<lambda>r. ''div'')(0 := ''html'', 1 := ''body'', 3 := ''ul'', 4 := ''li'', 9 := ''li'',
          6 := ''span'', 11 := ''span''))
       (\<lambda>r. Map.empty)
       ((\<lambda>r. [])(2 := [''accordion''], 3 := [''accordion__wrapper''],
          4 := [''accordion__item''], 5 := [''accordion__header''],
          6 := [''header__toggle-indicator''], 7 := [''accordion__panel''],
          8 := [''panel__inner''],
          9 := [''accordion__item''], 10 := [''accordion__header''],
          11 := [''header__toggle-indicator''], 12 := [''accordion__panel''],
          13 := [''panel__inner''])))
     \<lparr>rect := (\<lambda>r. 0)(8 := 120, 13 := 80)\<rparr>"

text \<open>
  The same page with item 4 open, after the panel 7 of the item has been removed from
  the document (it has no parent any more), and after the whole item 4 has been removed.
\<close>

definition panel_removed_page :: dom where
  "panel_removed_page =
     accordion_page
       \<lparr>anc := (anc accordion_page)(7 := [], 8 := [7]),
        classes := (classes accordion_page)(4 := [''accordion__item'', ''is-active''])\<rparr>"

definition item_removed_page :: dom where
  "item_removed_page =
     accordion_page
       \<lparr>anc := (anc accordion_page)(4 := [], 5 := [4], 6 := [5, 4], 7 := [4], 8 := [7, 4]),
        classes := (classes accordion_page)(4 := [''accordion__item'', ''is-active''])\<rparr>"

text \<open>
  A page with two accordions: the first (wrapper 3) has the item 4 with header 5 and
  panel 6, the second (wrapper 8) the items 9 and 12 with headers 10 and 13 and panels
  11 and 14.
\<close>

definition two_accordions_page :: dom where
  "two_accordions_page =
     page [0, 1, 2, 3, 4, 5, 6, 7, 8, 9, 10, 11, 12, 13, 14]
       ((\<lambda>r. [])(1 := [0], 2 := [1, 0], 3 := [2, 1, 0],
          4 := [3, 2, 1, 0], 5 := [4, 3, 2, 1, 0], 6 := [4, 3, 2, 1, 0],
          7 := [1, 0], 8 := [7, 1, 0],
          9 := [8, 7, 1, 0], 10 := [9, 8, 7, 1, 0], 11 := [9, 8, 7, 1, 0],
          12 := [8, 7, 1, 0], 13 := [12, 8, 7, 1, 0], 14 := [12, 8, 7, 1, 0]))
       ((\<lambda>r. ''div'')(0 := ''html'', 1 := ''body'', 3 := ''ul'', 8 := ''ul'',
          4 := ''li'', 9 := ''li'', 12 := ''li''))
       (\<lambda>r. Map.empty)
       ((\<lambda>r. [])(2 := [''accordion''], 3 := [''accordion__wrapper''],
          4 := [''accordion__item''], 5 := [''accordion__header''],
          6 := [''accordion__panel''],
          7 := [''accordion''], 8 := [''accordion__wrapper''],
          9 := [''accordion__item''], 10 := [''accordion__header''],
          11 := [''accordion__panel''],
          12 := [''accordion__item''], 13 := [''accordion__header''],
          14 := [''accordion__panel'']))"

text \<open>
  A page with two modal dialogs as the component renders them. Dialog 4 is labelled by
  the trigger button 2 (id \<open>open-a\<close>) and holds the inner block 5, the content 6 with
  the title 7 and a link 8, and the close button 10 inside 9. Dialog 11 is labelled by
  the trigger button 3 (id \<open>open-b\<close>) and holds 12, 13, the title 14, and the close
  button 16 inside 15.
\<close>

definition modal_page :: dom where
  "modal_page =
     page [0, 1, 2, 3, 4, 5, 6, 7, 8, 9, 10, 11, 12, 13, 14, 15, 16]
       ((\<lambda>r. [])(1 := [0], 2 := [1, 0], 3 := [1, 0],
          4 := [1, 0], 5 := [4, 1, 0], 6 := [5, 4, 1, 0], 7 := [6, 5, 4, 1, 0],
          8 := [6, 5, 4, 1, 0], 9 := [5, 4, 1, 0], 10 := [9, 5, 4, 1, 0],
          11 := [1, 0], 12 := [11, 1, 0], 13 := [12, 11, 1, 0], 14 := [13, 12, 11, 1, 0],
          15 := [12, 11, 1, 0], 16 := [15, 12, 11, 1, 0]))
       ((\<lambda>r. ''div'')(0 := ''html'', 1 := ''body'', 2 := ''button'', 3 := ''button'',
          4 := ''dialog'', 7 := ''h3'', 8 := ''a'', 10 := ''button'',
          11 := ''dialog'', 14 := ''h3'', 16 := ''button''))
       ((\<lambda>r. Map.empty)(2 := [''id'' \<mapsto> ''open-a''], 3 := [''id'' \<mapsto> ''open-b''],
          4 := [''aria-labelledby'' \<mapsto> ''open-a''], 7 := [''tabindex'' \<mapsto> ''-1''],
          8 := [''href'' \<mapsto> ''/terms''],
          11 := [''aria-labelledby'' \<mapsto> ''open-b''], 14 := [''tabindex'' \<mapsto> ''-1'']))
       ((\<lambda>r. [])(4 := [''modal''], 5 := [''modal__inner''], 6 := [''modal__content''],
          9 := [''modal__close''],
          11 := [''modal''], 12 := [''modal__inner''], 13 := [''modal__content''],
          15 := [''modal__close'']))"

text \<open>The same page without the id of the second trigger.\<close>

definition missing_trigger_page :: dom where
  "missing_trigger_page = modal_page\<lparr>attr := (attr modal_page)(3 := Map.empty)\<rparr>"

text \<open>The modal script has run on the page, and then the first dialog was opened.\<close>

definition bound_state :: modal_state where
  "bound_state = final (modal_script modal_page)"

definition opened_state :: modal_state where
  "opened_state = final (openModal 4 bound_state)"

text \<open>
  The page that a view swap brings in: its document element is 20, its body 21. It has a
  dialog 23 labelled by the trigger button 22 (id \<open>open-c\<close>), with the inner block 24,
  the title 25 and the close button 27 inside 26, and an accordion 28 with the wrapper
  29 and one item 30 with the header 31 and the panel 32.
\<close>

definition next_page :: dom where
  "next_page =
     (page [20, 21, 22, 23, 24, 25, 26, 27, 28, 29, 30, 31, 32]
       ((\<lambda>r. [])(21 := [20], 22 := [21, 20], 23 := [21, 20], 24 := [23, 21, 20],
          25 := [24, 23, 21, 20], 26 := [24, 23, 21, 20], 27 := [26, 24, 23, 21, 20],
          28 := [21, 20], 29 := [28, 21, 20], 30 := [29, 28, 21, 20],
          31 := [30, 29, 28, 21, 20], 32 := [30, 29, 28, 21, 20]))
       ((\<lambda>r. ''div'')(20 := ''html'', 21 := ''body'', 22 := ''button'', 23 := ''dialog'',
          25 := ''h3'', 27 := ''button'', 29 := ''ul'', 30 := ''li''))
       ((\<lambda>r. Map.empty)(22 := [''id'' \<mapsto> ''open-c''],
          23 := [''aria-labelledby'' \<mapsto> ''open-c''], 25 := [''tabindex'' \<mapsto> ''-1'']))
       ((\<lambda>r. [])(23 := [''modal''], 24 := [''modal__inner''], 26 := [''modal__close''],
          28 := [''accordion''], 29 := [''accordion__wrapper''], 30 := [''accordion__item''],
          31 := [''accordion__header''], 32 := [''accordion__panel''])))
     \<lparr>documentElement := 20\<rparr>"

text \<open>
  A page with the skip link as the component renders it: the block 2 of class
  \<open>skip-links\<close>, whose \<open>data-classname\<close> is the text \<open>{className}\<close>, holds the anchor 3
  with the target \<open>#main-content\<close>; the target 4 holds the heading 5.
\<close>

definition skiplinks_page :: dom where
  "skiplinks_page =
     page [0, 1, 2, 3, 4, 5]
       ((\<lambda>r. [])(1 := [0], 2 := [1, 0], 3 := [2, 1, 0], 4 := [1, 0], 5 := [4, 1, 0]))
       ((\<lambda>r. ''div'')(0 := ''html'', 1 := ''body'', 3 := ''a'', 4 := ''main'', 5 := ''h1''))
       ((\<lambda>r. Map.empty)(2 := [''data-classname'' \<mapsto> ''{className}''],
          3 := [''href'' \<mapsto> ''#main-content''], 4 := [''id'' \<mapsto> ''main-content'']))
       ((\<lambda>r. [])(2 := [''skip-links'']))"

section \<open>Properties\<close>

subsection \<open>Effects of the element operations\<close>

lemma document_body_unchanged [simp]:
  "document_body (classList_add r c d) = document_body d"
  "document_body (classList_remove r c d) = document_body d"
  "document_body (setAttribute r a v d) = document_body d"
  "document_body (removeAttribute r a d) = document_body d"
  "document_body (set_innerHTML r m d) = document_body d"
  "document_body (set_height r h d) = document_body d"
  "document_body (focus r d) = document_body d"
  by (simp_all add: document_body_def classList_add_def classList_remove_def setAttribute_def
      removeAttribute_def set_innerHTML_def set_height_def focus_def isConnected_def)

lemma classes_after [simp]:
  "classes (classList_add r c d) =
     (classes d)(r := (if c \<in> set (classes d r) then classes d r else classes d r @ [c]))"
  "classes (classList_remove r c d) = (classes d)(r := removeAll c (classes d r))"
  "classes (setAttribute r a v d) = classes d"
  "classes (removeAttribute r a d) = classes d"
  "classes (set_innerHTML r m d) = classes d"
  "classes (set_height r h d) = classes d"
  "classes (focus r d) = classes d"
  by (simp_all add: classList_add_def classList_remove_def setAttribute_def
      removeAttribute_def set_innerHTML_def set_height_def focus_def)

lemma attr_after [simp]:
  "attr (setAttribute r a v d) = (attr d)(r := (attr d r)(a \<mapsto> v))"
  "attr (removeAttribute r a d) = (attr d)(r := (attr d r)(a := None))"
  "attr (classList_add r c d) = attr d"
  "attr (classList_remove r c d) = attr d"
  "attr (set_innerHTML r m d) = attr d"
  "attr (set_height r h d) = attr d"
  "attr (focus r d) = attr d"
  by (simp_all add: classList_add_def classList_remove_def setAttribute_def
      removeAttribute_def set_innerHTML_def set_height_def focus_def)

lemma height_after [simp]:
  "height (set_height r h d) = (height d)(r := Some h)"
  "height (setAttribute r a v d) = height d"
  "height (removeAttribute r a d) = height d"
  "height (classList_add r c d) = height d"
  "height (classList_remove r c d) = height d"
  "height (set_innerHTML r m d) = height d"
  "height (focus r d) = height d"
  by (simp_all add: classList_add_def classList_remove_def setAttribute_def
      removeAttribute_def set_innerHTML_def set_height_def focus_def)

lemma by_class_unchanged [simp]:
  "querySelectorAll (setAttribute r a v d) x (ByClass c) = querySelectorAll d x (ByClass c)"
  "querySelectorAll (removeAttribute r a d) x (ByClass c) = querySelectorAll d x (ByClass c)"
  "querySelectorAll (set_height r h d) x (ByClass c) = querySelectorAll d x (ByClass c)"
  "querySelectorAll (set_innerHTML r m d) x (ByClass c) = querySelectorAll d x (ByClass c)"
  "querySelectorAll (focus r d) x (ByClass c) = querySelectorAll d x (ByClass c)"
  by (simp_all add: querySelectorAll_def setAttribute_def removeAttribute_def set_height_def
      set_innerHTML_def focus_def)

lemma by_class_after_add [simp]:
  "c \<noteq> c' \<Longrightarrow>
   querySelectorAll (classList_add r c' d) x (ByClass c) = querySelectorAll d x (ByClass c)"
  by (auto simp: querySelectorAll_def classList_add_def intro!: filter_cong)

lemma by_class_after_remove [simp]:
  "c \<noteq> c' \<Longrightarrow>
   querySelectorAll (classList_remove r c' d) x (ByClass c) = querySelectorAll d x (ByClass c)"
  by (auto simp: querySelectorAll_def classList_remove_def intro!: filter_cong)

text \<open>An element that \<open>querySelector\<close> finds inside another one has a parent.\<close>

lemma found_element_has_parent:
  assumes "querySelector d x s = Some p"
  shows "parentElement d p \<noteq> None"
proof -
  from assms have "p \<in> set (querySelectorAll d x s)"
    by (auto simp: querySelector_def first_def split: list.splits)
  then have "x \<in> set (anc d p)" by (simp add: querySelectorAll_def)
  then show ?thesis by (cases "anc d p") (auto simp: parentElement_def)
qed

lemma tree_fields_after [simp]:
  "nodes (setAttribute r a v d) = nodes d" "anc (setAttribute r a v d) = anc d"
  "tag (setAttribute r a v d) = tag d" "documentElement (setAttribute r a v d) = documentElement d"
  "nodes (removeAttribute r a d) = nodes d" "anc (removeAttribute r a d) = anc d"
  "tag (removeAttribute r a d) = tag d"
  "documentElement (removeAttribute r a d) = documentElement d"
  "nodes (focus r d) = nodes d" "anc (focus r d) = anc d"
  "tag (focus r d) = tag d" "documentElement (focus r d) = documentElement d"
  by (simp_all add: setAttribute_def removeAttribute_def focus_def)

lemma is_modal_after [simp]:
  "is_modal (setAttribute r a v d) = is_modal d"
  "is_modal (removeAttribute r a d) = is_modal d"
  "is_modal (focus r d) = is_modal d"
  by (simp_all add: setAttribute_def removeAttribute_def focus_def)

lemma isConnected_after [simp]:
  "isConnected (setAttribute r a v d) x = isConnected d x"
  "isConnected (removeAttribute r a d) x = isConnected d x"
  "isConnected (focus r d) x = isConnected d x"
  "isConnected (d\<lparr>is_modal := f\<rparr>) x = isConnected d x"
  "isConnected (d\<lparr>active := y\<rparr>) x = isConnected d x"
  by (simp_all add: isConnected_def)

lemma active_after [simp]:
  "active (setAttribute r a v d) = active d"
  "active (removeAttribute r a d) = active d"
  "isConnected d r \<Longrightarrow> active (focus r d) = Some r"
  by (simp_all add: setAttribute_def removeAttribute_def focus_def)

lemma same_tree_refl [simp]: "same_tree d d"
  by (simp add: same_tree_def)

lemma same_tree_trans: "same_tree d d' \<Longrightarrow> same_tree d' d'' \<Longrightarrow> same_tree d d''"
  by (simp add: same_tree_def)

lemma same_tree_after [simp]:
  "same_tree d (setAttribute r a v d)"
  "same_tree d (removeAttribute r a d)"
  "same_tree d (focus r d)"
  "same_tree d (d\<lparr>is_modal := f\<rparr>)"
  "same_tree d (d\<lparr>active := y\<rparr>)"
  by (simp_all add: same_tree_def classes_after)

subsection \<open>Selectors on documents that differ in attributes only\<close>

lemma matches_cong:
  assumes "same_tree d d'"
    and "\<And>r a. a \<in> set (attrs_read sel) \<Longrightarrow> attr d' r a = attr d r a"
  shows "matches d' sel x = matches d sel x"
  using assms(2)
proof (induction sel arbitrary: x)
  case (Inside s t)
  have "matches d' s = matches d s" using Inside by auto
  moreover have "matches d' t x = matches d t x" using Inside by auto
  ultimately show ?case using assms(1) by (simp add: same_tree_def)
qed (use assms(1) in \<open>auto simp: same_tree_def\<close>)

lemma isConnected_cong: "same_tree d d' \<Longrightarrow> isConnected d' r = isConnected d r"
  by (simp add: same_tree_def isConnected_def)

lemma doc_querySelectorAll_cong:
  assumes "same_tree d d'"
    and "\<And>r a. a \<in> set (attrs_read sel) \<Longrightarrow> attr d' r a = attr d r a"
  shows "doc_querySelectorAll d' sel = doc_querySelectorAll d sel"
proof -
  have "matches d' sel = matches d sel" using matches_cong [OF assms] by auto
  moreover have "nodes d' = nodes d" using assms(1) by (simp add: same_tree_def)
  ultimately show ?thesis
    using isConnected_cong [OF assms(1)] by (simp add: doc_querySelectorAll_def)
qed

lemma querySelectorAll_cong:
  assumes "same_tree d d'"
    and "\<And>r a. a \<in> set (attrs_read sel) \<Longrightarrow> attr d' r a = attr d r a"
  shows "querySelectorAll d' x sel = querySelectorAll d x sel"
proof -
  have "matches d' sel = matches d sel" using matches_cong [OF assms] by auto
  moreover have "nodes d' = nodes d" "anc d' = anc d"
    using assms(1) by (simp_all add: same_tree_def)
  ultimately show ?thesis by (simp add: querySelectorAll_def)
qed

subsection \<open>Ancestor chains of a well-formed document\<close>

lemma well_formed_parent:
  assumes "well_formed d" "r \<in> set (nodes d)" "anc d r = p # ps"
  shows "p \<in> set (nodes d) \<and> ps = anc d p"
proof -
  from assms(1,2)
  have "case anc d r of [] \<Rightarrow> True | p # ps \<Rightarrow> p \<in> set (nodes d) \<and> ps = anc d p"
    unfolding well_formed_def list_all_iff by blast
  with assms(3) show ?thesis by simp
qed

lemma descendant_chain:
  assumes "well_formed d"
  shows "r \<in> set (nodes d) \<Longrightarrow> x \<in> set (anc d r) \<Longrightarrow> set (anc d x) \<subseteq> set (anc d r)"
proof (induction "length (anc d r)" arbitrary: r rule: less_induct)
  case less
  from less.prems(2) obtain p ps where a: "anc d r = p # ps" by (cases "anc d r") auto
  from well_formed_parent [OF assms less.prems(1) a]
  have p: "p \<in> set (nodes d)" and ps: "ps = anc d p" by blast+
  show ?case
  proof (cases "x = p")
    case True
    have "set (anc d p) \<subseteq> set (p # ps)" unfolding ps by auto
    then show ?thesis unfolding a True .
  next
    case False
    from less.prems(2) have "x \<in> set (p # ps)" unfolding a .
    with False have xin: "x \<in> set (anc d p)" unfolding ps by simp
    have "length (anc d p) < length (anc d r)" unfolding a ps [symmetric] by simp
    from less.hyps [OF this p xin] have "set (anc d x) \<subseteq> set (anc d p)" .
    also have "\<dots> \<subseteq> set (p # ps)" unfolding ps by auto
    finally show ?thesis unfolding a .
  qed
qed

lemma descendant_connected:
  assumes "well_formed d" "r \<in> set (nodes d)" "x \<in> set (anc d r)" "isConnected d x"
  shows "isConnected d r"
proof -
  from descendant_chain [OF assms(1-3)] have s: "set (anc d x) \<subseteq> set (anc d r)" .
  from assms(4) have "x = documentElement d \<or> documentElement d \<in> set (anc d x)"
    by (simp add: isConnected_def)
  then have "documentElement d \<in> set (anc d r)" using s assms(3) by blast
  then show ?thesis by (simp add: isConnected_def)
qed

lemma first_Some_mem: "first xs = Some x \<Longrightarrow> x \<in> set xs"
  by (cases xs) (auto simp: first_def)

lemma found_in_document:
  "doc_querySelector d s = Some r \<Longrightarrow> isConnected d r \<and> r \<in> set (nodes d) \<and> matches d s r"
  by (auto simp: doc_querySelector_def doc_querySelectorAll_def dest!: first_Some_mem)

lemma found_inside:
  "querySelector d x s = Some r \<Longrightarrow> x \<in> set (anc d r) \<and> r \<in> set (nodes d) \<and> matches d s r"
  by (auto simp: querySelector_def querySelectorAll_def dest!: first_Some_mem)

subsection \<open>Dispatch\<close>

text \<open>No listener for the event type: dispatching changes nothing.\<close>

lemma run_listeners_Nil [simp]: "run_listeners cur h [] s = s"
  by simp

lemma dispatch_path_no_listener:
  assumes "\<And>l. l \<in> set (cur s) \<Longrightarrow> on_type l \<noteq> ty"
  shows "dispatch_path cur stp h ty ts s = s"
proof (induction ts)
  case Nil
  then show ?case by simp
next
  case (Cons t ts)
  have "filter (\<lambda>l. on_target l = t \<and> on_type l = ty) (cur s) = []"
    using assms by (auto simp: filter_empty_conv)
  then show ?case using Cons by (simp add: Let_def)
qed

subsection \<open>Dark mode: the state after the script has run\<close>

text \<open>
  Claim C5. The script resolves the state in the order stored preference, system
  preference, disabled: after it has run on a page with a body, the body carries the
  class \<open>darkmode\<close> exactly when the stored value is \<open>enabled\<close>, or it is neither
  \<open>enabled\<close> nor \<open>disabled\<close> and the system prefers a dark scheme. A stored
  \<open>disabled\<close> therefore gives the disabled state whatever the system prefers, and
  without a stored value a system preference for dark gives the enabled state. Whenever
  the stored value decides nothing (in particular when there is none), \<open>setItem\<close> is
  never called and the store is left as it was.
\<close>

theorem darkmode_initial_state:
  assumes "document_body d = Some b"
  shows "(let s = final (darkmode_script d st os) in
          isDarkMode (dm_page s) =
            (if st ''darkMode'' = Some ''enabled'' then True
             else if st ''darkMode'' = Some ''disabled'' then False
             else os) \<and>
          (if st ''darkMode'' = Some ''enabled'' \<or> st ''darkMode'' = Some ''disabled''
           then True
           else set_calls s = [] \<and> storage s = st))"
  using assms
  by (auto simp: darkmode_script_def apply_preference_def checkPreference_def
      enableDarkMode_def disableDarkMode_def isDarkMode_def final_def and_then_def
      setItem_def dm_add_listener_def Let_def split: option.splits)

lemma darkmode_page_body: "document_body darkmode_page = Some 1"
  by (simp add: document_body_def darkmode_page_def page_def)

theorem darkmode_initial_state_witness:
  "document_body darkmode_page = Some 1 \<and>
   isDarkMode (dm_page (final (darkmode_script darkmode_page (\<lambda>k. None) True))) \<and>
   set_calls (final (darkmode_script darkmode_page (\<lambda>k. None) True)) = [] \<and>
   \<not> isDarkMode (dm_page (final (darkmode_script darkmode_page
                                  [''darkMode'' \<mapsto> ''disabled''] True)))"
  using darkmode_initial_state [OF darkmode_page_body, of "\<lambda>k. None" True]
    darkmode_initial_state [OF darkmode_page_body, of "[''darkMode'' \<mapsto> ''disabled'']" True]
    darkmode_page_body
  by (simp add: Let_def)

subsection \<open>Accordion: opening an item\<close>

text \<open>
  Claim C7. Opening an item leaves every other item as it was: for two distinct items
  that follow the markup of the accordion, \<open>openAccordionItem\<close> on the one changes
  neither the \<open>is-active\<close> class of the other, nor the \<open>aria-expanded\<close> attribute of its
  header, nor the height of its panel; and the opened item is active afterwards. So two
  items can be open at the same time: nothing closes an item when another one opens.
\<close>

theorem open_leaves_other_items:
  assumes "item_markup d n" and "item_markup d m" and "n \<noteq> m"
  shows "item_state (final (openAccordionItem n d)) m = item_state d m \<and>
         isAccordionOpen (final (openAccordionItem n d)) n"
  using assms
  by (auto simp: item_markup_def item_state_def openAccordionItem_def final_def
      querySelector_def isAccordionOpen_def Let_def split: option.splits)

lemma accordion_page_markup:
  "item_markup accordion_page 4" "item_markup accordion_page 9"
  by code_simp+

theorem open_leaves_other_items_witness:
  "item_markup accordion_page 4 \<and> item_markup accordion_page 9 \<and> (4::nat) \<noteq> 9 \<and>
   item_state (final (openAccordionItem 4 accordion_page)) 9 = item_state accordion_page 9 \<and>
   isAccordionOpen (final (openAccordionItem 4 accordion_page)) 4 \<and>
   isAccordionOpen (final (openAccordionItem 9 (final (openAccordionItem 4 accordion_page)))) 4"
proof -
  have other: "isAccordionOpen (final (openAccordionItem 9 (final (openAccordionItem 4 accordion_page)))) 4"
    by code_simp
  show ?thesis
    using open_leaves_other_items [OF accordion_page_markup] accordion_page_markup other
    by simp
qed

subsection \<open>Accordion: closing an item whose panel is gone\<close>

text \<open>
  Claim C4 says that \<open>closeAccordionItem\<close> does nothing when the panel of the item has
  been removed from the document. The function tests the panel's parent in its last
  statement, after all its effects. On the page where the panel 7 of the open item 4 has
  been removed, the panel is no longer found in the item: the function removes the class
  \<open>is-active\<close> and then throws a \<open>TypeError\<close>. On the page where the item itself has been
  removed together with its panel, the function runs to its end: it removes the class,
  sets the height to 0, sets \<open>aria-expanded\<close> and replaces the icon.
\<close>

theorem close_with_removed_panel_has_effects:
  "\<not> isConnected panel_removed_page 7 \<and>
   parentElement panel_removed_page 7 = None \<and>
   isAccordionOpen panel_removed_page 4 \<and>
   thrown (closeAccordionItem 4 panel_removed_page) = Some TypeError \<and>
   \<not> isAccordionOpen (final (closeAccordionItem 4 panel_removed_page)) 4 \<and>
   \<not> isConnected item_removed_page 7 \<and>
   isAccordionOpen item_removed_page 4 \<and>
   height item_removed_page 7 = None \<and>
   thrown (closeAccordionItem 4 item_removed_page) = None \<and>
   \<not> isAccordionOpen (final (closeAccordionItem 4 item_removed_page)) 4 \<and>
   height (final (closeAccordionItem 4 item_removed_page)) 7 = Some 0 \<and>
   attr (final (closeAccordionItem 4 item_removed_page)) 5 ''aria-expanded'' = Some ''false'' \<and>
   html (final (closeAccordionItem 4 item_removed_page)) 6 = Some ''plus-icon''"
  by code_simp

subsection \<open>Accordion: the arrow keys\<close>

text \<open>
  Where \<open>accordionItems\<close> is the list of the items of the focused header's own
  accordion, as on a page with a single accordion, the listener does move the focus to
  the next and the previous header and stops at both ends.
\<close>

lemma index_from_nth:
  "distinct xs \<Longrightarrow> k < length xs \<Longrightarrow> index_from i xs (xs ! k) = i + int k"
proof (induction xs arbitrary: i k)
  case Nil
  then show ?case by simp
next
  case (Cons x xs)
  show ?case
  proof (cases k)
    case 0
    then show ?thesis by simp
  next
    case (Suc j)
    then have "xs ! j \<noteq> x" using Cons.prems by auto
    then show ?thesis using Cons Suc by simp
  qed
qed

lemma arrow_keys_single_accordion:
  assumes items: "querySelectorAll (acc_page s) w (ByClass ''accordion__item'') = accordionItems s"
    and dist: "distinct (accordionItems s)"
    and k: "k < length (accordionItems s)"
    and hdr: "closest (acc_page s) t (ByClass ''accordion__header'') = Some hk"
    and wrp: "closest (acc_page s) hk (ByClass ''accordion__wrapper'') = Some w"
    and itm: "closest (acc_page s) hk (ByClass ''accordion__item'') = Some (accordionItems s ! k)"
    and hs: "\<And>j. j < length (accordionItems s) \<Longrightarrow>
               querySelector (acc_page s) (accordionItems s ! j) (ByClass ''accordion__header'')
                 = Some (hs j) \<and> isConnected (acc_page s) (hs j)"
  shows "arrow_keydown (keydown_at t ''ArrowDown'' sh) s =
           (if Suc k < length (accordionItems s)
            then Inr (s\<lparr>acc_prevented := True,
                        acc_page := (acc_page s)\<lparr>active := Some (hs (Suc k))\<rparr>\<rparr>)
            else Inr s) \<and>
         arrow_keydown (keydown_at t ''ArrowUp'' sh) s =
           (if 0 < k
            then Inr (s\<lparr>acc_prevented := True,
                        acc_page := (acc_page s)\<lparr>active := Some (hs (k - 1))\<rparr>\<rparr>)
            else Inr s)"
proof -
  have idx: "indexOf (querySelectorAll (acc_page s) w (ByClass ''accordion__item''))
               (closest (acc_page s) hk (ByClass ''accordion__item'')) = int k"
    unfolding items itm using index_from_nth [OF dist k, of 0] by (simp add: indexOf_def)
  have down: "targetItem s (int k) ''ArrowDown'' =
      (if Suc k < length (accordionItems s) then Some (accordionItems s ! Suc k) else None)"
    by (auto simp: targetItem_def at_index_def nat_add_distrib)
  have up: "targetItem s (int k) ''ArrowUp'' =
      (if 0 < k then Some (accordionItems s ! (k - 1)) else None)"
    using k by (auto simp: targetItem_def at_index_def nat_diff_distrib)
  have common: "arrow_keydown (keydown_at t key sh) s =
      (case targetItem s (int k) key of
         None \<Rightarrow> Inr s
       | Some target \<Rightarrow>
           (case querySelector (acc_page s) target (ByClass ''accordion__header'') of
              None \<Rightarrow> Inl (TypeError, s\<lparr>acc_prevented := True\<rparr>)
            | Some h \<Rightarrow>
                Inr (s\<lparr>acc_prevented := True, acc_page := focus h (acc_page s)\<rparr>)))" for key
    using hdr wrp idx
    by (simp add: arrow_keydown_def keydown_at_def Let_def split: option.splits)
  have foc: "focus (hs j) (acc_page s) = (acc_page s)\<lparr>active := Some (hs j)\<rparr>"
    if "j < length (accordionItems s)" for j
    using hs [OF that] by (simp add: focus_def)
  have d: "arrow_keydown (keydown_at t ''ArrowDown'' sh) s =
           (if Suc k < length (accordionItems s)
            then Inr (s\<lparr>acc_prevented := True,
                        acc_page := (acc_page s)\<lparr>active := Some (hs (Suc k))\<rparr>\<rparr>)
            else Inr s)"
  proof (cases "Suc k < length (accordionItems s)")
    case True
    then show ?thesis unfolding common down using hs [OF True] foc [OF True] by simp
  next
    case False
    then show ?thesis unfolding common down by simp
  qed
  have u: "arrow_keydown (keydown_at t ''ArrowUp'' sh) s =
           (if 0 < k
            then Inr (s\<lparr>acc_prevented := True,
                        acc_page := (acc_page s)\<lparr>active := Some (hs (k - 1))\<rparr>\<rparr>)
            else Inr s)"
  proof (cases "0 < k")
    case True
    then have j: "k - 1 < length (accordionItems s)" using k by simp
    show ?thesis unfolding common up using True hs [OF j] foc [OF j] by simp
  next
    case False
    then show ?thesis unfolding common up by simp
  qed
  show ?thesis using d u by simp
qed

text \<open>
  Claim C6 says that the arrow keys move the focus between the headers of one accordion.
  The listener takes the position of the focused item in the list of its own
  accordion's items, and reads the target in \<open>accordionItems\<close>, the list of the items
  of all accordions of the document. On the page with two accordions the script
  collects the items 4, 9 and 12; the second accordion has the items 9 and 12 with the
  headers 10 and 13. With the focus on header 13, \<open>ArrowUp\<close> moves it to header 5 of the
  first accordion, not to header 10; with the focus on header 10, \<open>ArrowDown\<close> leaves it
  on header 10, not on header 13; with the focus on header 13, the last one,
  \<open>ArrowDown\<close> cancels the key's default action.
\<close>

theorem arrow_keys_with_two_accordions:
  "thrown (accordion_script two_accordions_page) = None \<and>
   accordionItems (final (accordion_script two_accordions_page)) = [4, 9, 12] \<and>
   querySelectorAll two_accordions_page 8 (ByClass ''accordion__item'') = [9, 12] \<and>
   querySelector two_accordions_page 4 (ByClass ''accordion__header'') = Some 5 \<and>
   querySelector two_accordions_page 9 (ByClass ''accordion__header'') = Some 10 \<and>
   querySelector two_accordions_page 12 (ByClass ''accordion__header'') = Some 13 \<and>
   active (acc_page (acc_dispatch ''keydown'' (keydown_at 13 ''ArrowUp'' False)
     (acc_focused_on 13 (final (accordion_script two_accordions_page))))) = Some 5 \<and>
   active (acc_page (acc_dispatch ''keydown'' (keydown_at 10 ''ArrowDown'' False)
     (acc_focused_on 10 (final (accordion_script two_accordions_page))))) = Some 10 \<and>
   acc_prevented (acc_dispatch ''keydown'' (keydown_at 13 ''ArrowDown'' False)
     (acc_focused_on 13 (final (accordion_script two_accordions_page))))"
  by code_simp

subsection \<open>Modal: outcomes and listeners\<close>

lemma thrown_simps [simp]:
  "thrown (Inl (e, s)) = Some e" "thrown (Inr s) = None"
  "final (Inl (e, s)) = s" "final (Inr s) = s"
  by (simp_all add: thrown_def final_def)

lemma and_then_simps [simp]:
  "and_then (Inl x) f = Inl x" "and_then (Inr s) f = f s"
  by (simp_all add: and_then_def)

lemma completed: "thrown r = None \<Longrightarrow> r = Inr (final r)"
  by (cases r) (auto simp: thrown_def final_def)

lemma m_add_listener_fields [simp]:
  "m_page (m_add_listener t ty h c s) = m_page s"
  "modals (m_add_listener t ty h c s) = modals s"
  "trapFocusController (m_add_listener t ty h c s) = trapFocusController s"
  "keydownController (m_add_listener t ty h c s) = keydownController s"
  "controllers (m_add_listener t ty h c s) = controllers s"
  "window_close (m_add_listener t ty h c s) = window_close s"
  "m_prevented (m_add_listener t ty h c s) = m_prevented s"
  "m_stopped (m_add_listener t ty h c s) = m_stopped s"
  "m_reported (m_add_listener t ty h c s) = m_reported s"
  by (simp_all add: m_add_listener_def)

lemma m_add_listener_new:
  "h \<noteq> CloseModal \<Longrightarrow>
   m_listeners (m_add_listener t ty h c s) =
     m_listeners s @ [\<lparr>on_target = t, on_type = ty, run = h, signal = c\<rparr>]"
  by (simp add: m_add_listener_def)

lemma m_add_listener_subset:
  "set (m_listeners s) \<subseteq> set (m_listeners (m_add_listener t ty h c s))"
  by (auto simp: m_add_listener_def)

lemma m_add_listener_cases:
  "l \<in> set (m_listeners (m_add_listener t ty h c s)) \<Longrightarrow>
   l \<in> set (m_listeners s) \<or> l = \<lparr>on_target = t, on_type = ty, run = h, signal = c\<rparr>"
  by (auto simp: m_add_listener_def split: if_splits)

lemma m_add_listener_present:
  "list_ex (\<lambda>l. on_target l = t \<and> on_type l = ty \<and> run l = h)
     (m_listeners (m_add_listener t ty h c s))"
  by (auto simp: m_add_listener_def list_ex_iff)

subsection \<open>Modal: the binding loop\<close>

text \<open>The binding loop reads the page and adds listeners; it changes nothing else.\<close>

lemma bind_one_shape:
  "(\<exists>e. bind_one m s = Inl (e, s)) \<or>
   (\<exists>t. trigger_of (m_page s) m = Some t \<and>
        querySelector (m_page s) m (Inside (ByClass ''modal__close'') (ByTag ''button'')) = None \<and>
        bind_one m s =
          Inl (TypeError, m_add_listener (Node t) ''click'' (OpenModal m) None s)) \<or>
   (\<exists>t b. trigger_of (m_page s) m = Some t \<and>
        querySelector (m_page s) m (Inside (ByClass ''modal__close'') (ByTag ''button'')) = Some b \<and>
        bind_one m s =
          Inr (m_add_listener (Node b) ''click'' CloseModal None
                 (m_add_listener (Node t) ''click'' (OpenModal m) None s)))"
  unfolding bind_one_def trigger_of_def Let_def
  by (simp split: sum.split option.split)

lemma m_frame_refl [simp]: "m_frame s s"
  by (simp add: m_frame_def)

lemma m_frame_trans: "m_frame s s' \<Longrightarrow> m_frame s' s'' \<Longrightarrow> m_frame s s''"
  by (auto simp: m_frame_def)

lemma m_frame_add [simp]: "m_frame s (m_add_listener t ty h c s)"
  using m_add_listener_subset [of s t ty h c] by (simp add: m_frame_def)

lemma bind_one_frame: "m_frame s (final (bind_one m s))"
proof -
  have a: "m_frame s (m_add_listener (Node b) ''click'' CloseModal None
                 (m_add_listener (Node t) ''click'' (OpenModal m) None s))" for t b
    by (rule m_frame_trans [OF m_frame_add m_frame_add])
  from bind_one_shape [of m s] show ?thesis
    using a by (elim disjE exE conjE) simp_all
qed

lemma bind_each_frame: "m_frame s (final (bind_each ms s))"
proof (induction ms arbitrary: s)
  case Nil
  then show ?case by simp
next
  case (Cons m ms)
  show ?case
  proof (cases "bind_one m s")
    case (Inl x)
    then show ?thesis using bind_one_frame [of s m] by (cases x) simp
  next
    case (Inr s1)
    then have "m_frame s s1" using bind_one_frame [of s m] by simp
    from m_frame_trans [OF this Cons [of s1]] show ?thesis using Inr by simp
  qed
qed

lemma bind_one_listeners:
  assumes "l \<in> set (m_listeners (final (bind_one m s)))"
  shows "l \<in> set (m_listeners s) \<or> (on_type l = ''click'' \<and> signal l = None)"
proof -
  have a: "x \<in> set (m_listeners s) \<or> (on_type x = ''click'' \<and> signal x = None)"
    if "x \<in> set (m_listeners (m_add_listener t ''click'' h None s))" for x t h s
    using m_add_listener_cases [OF that] by auto
  from bind_one_shape [of m s] show ?thesis
  proof (elim disjE exE conjE)
    fix e assume "bind_one m s = Inl (e, s)"
    then show ?thesis using assms by simp
  next
    fix t assume "bind_one m s =
          Inl (TypeError, m_add_listener (Node t) ''click'' (OpenModal m) None s)"
    then show ?thesis using assms a by simp
  next
    fix t b assume "bind_one m s =
          Inr (m_add_listener (Node b) ''click'' CloseModal None
                 (m_add_listener (Node t) ''click'' (OpenModal m) None s))"
    then have "l \<in> set (m_listeners (m_add_listener (Node b) ''click'' CloseModal None
                 (m_add_listener (Node t) ''click'' (OpenModal m) None s)))"
      using assms by simp
    from a [OF this] show ?thesis using a by blast
  qed
qed

lemma bind_each_listeners:
  "l \<in> set (m_listeners (final (bind_each ms s))) \<Longrightarrow>
   l \<in> set (m_listeners s) \<or> (on_type l = ''click'' \<and> signal l = None)"
proof (induction ms arbitrary: s)
  case Nil
  then show ?case by simp
next
  case (Cons m ms)
  show ?case
  proof (cases "bind_one m s")
    case (Inl x)
    then show ?thesis using Cons.prems bind_one_listeners [of l m s] by (cases x) simp
  next
    case (Inr s1)
    then have "l \<in> set (m_listeners (final (bind_each ms s1)))" using Cons.prems by simp
    from Cons.IH [OF this] show ?thesis using bind_one_listeners [of l m s] Inr by auto
  qed
qed

lemma bind_each_triggers:
  "bind_each ms s = Inr s' \<Longrightarrow> m \<in> set ms \<Longrightarrow> trigger_of (m_page s) m \<noteq> None"
proof (induction ms arbitrary: s)
  case Nil
  then show ?case by simp
next
  case (Cons x ms)
  from Cons.prems(1) obtain s1 where s1: "bind_one x s = Inr s1" "bind_each ms s1 = Inr s'"
    by (cases "bind_one x s") auto
  have page: "m_page s1 = m_page s" using bind_one_frame [of s x] s1(1) by (simp add: m_frame_def)
  show ?case
  proof (cases "m = x")
    case True
    then show ?thesis using bind_one_shape [of x s] s1(1) by auto
  next
    case False
    then have "m \<in> set ms" using Cons.prems(2) by simp
    from Cons.IH [OF s1(2) this] show ?thesis using page by simp
  qed
qed

lemma script_state:
  assumes "modal_script d = Inr s0"
  shows "m_page s0 = d \<and> modals s0 = doc_querySelectorAll d (ByClass ''modal'') \<and>
         (\<forall>l\<in>set (m_listeners s0). signal l = None \<and> on_type l \<noteq> ''keydown'') \<and>
         (\<forall>m\<in>set (modals s0). trigger_of d m \<noteq> None) \<and> m_reported s0 = []"
proof -
  define s where "s = \<lparr>m_page = d, modals = doc_querySelectorAll d (ByClass ''modal''),
               trapFocusController = None, keydownController = None, controllers = 0,
               m_listeners = [], window_close = None, m_prevented = False,
               m_stopped = False, m_reported = []\<rparr>"
  have s_fields: "m_page s = d" "modals s = doc_querySelectorAll d (ByClass ''modal'')"
    "m_listeners s = []" "m_reported s = []"
    by (simp_all add: s_def)
  have script: "modal_script d =
      and_then (bind_each (modals s) s)
        (\<lambda>s1. Inr (m_add_listener Document ''astro:after-swap'' ModalAfterSwap None
                      (s1\<lparr>window_close := Some CloseModal\<rparr>)))"
    unfolding modal_script_def Let_def s_def [symmetric] ..
  from assms obtain s1 where
    s1: "bind_each (modals s) s = Inr s1"
    and s0: "s0 = m_add_listener Document ''astro:after-swap'' ModalAfterSwap None
                    (s1\<lparr>window_close := Some CloseModal\<rparr>)"
    unfolding script by (cases "bind_each (modals s) s") auto
  have fr: "m_frame s s1" using bind_each_frame [of s "modals s"] s1 by simp
  have ls: "signal l = None \<and> on_type l \<noteq> ''keydown''" if "l \<in> set (m_listeners s1)" for l
    using bind_each_listeners [of l "modals s" s] that s1 s_fields(3) by auto
  have l0: "m_listeners s0 = m_listeners s1 @
      [\<lparr>on_target = Document, on_type = ''astro:after-swap'', run = ModalAfterSwap,
        signal = None\<rparr>]"
    unfolding s0 by (simp add: m_add_listener_new)
  have tr: "trigger_of d m \<noteq> None" if "m \<in> set (modals s)" for m
    using bind_each_triggers [OF s1 that] s_fields(1) by simp
  show ?thesis
    using fr s_fields ls tr unfolding s0 l0 [unfolded s0] by (auto simp: m_frame_def)
qed

lemma script_idle:
  assumes "modal_script d = Inr s0"
    and "\<And>x. x \<in> set (doc_querySelectorAll d (ByClass ''modal'')) \<Longrightarrow> tag d x = ''dialog''"
  shows "idle s0"
  using script_state [OF assms(1)] assms(2) by (simp add: idle_def list_all_iff)

subsection \<open>Modal: a dialog without its trigger\<close>

lemma no_trigger_bind_one:
  assumes "\<And>r. r \<in> set (nodes (m_page s)) \<Longrightarrow> isConnected (m_page s) r \<Longrightarrow>
             attr (m_page s) r ''id'' \<noteq> Some i"
    and "attr (m_page s) m ''aria-labelledby'' = Some i"
  shows "thrown (bind_one m s) \<noteq> None"
proof -
  have "doc_querySelectorAll (m_page s) (ById i) = []"
    using assms(1) by (auto simp: doc_querySelectorAll_def filter_empty_conv)
  then have "trigger_of (m_page s) m = None"
    using assms(2)
    by (simp add: trigger_of_def id_selector_def template_def doc_querySelector_def first_def)
  with bind_one_shape [of m s] show ?thesis by auto
qed

lemma no_trigger_bind_each:
  assumes "\<And>r. r \<in> set (nodes d) \<Longrightarrow> isConnected d r \<Longrightarrow> attr d r ''id'' \<noteq> Some i"
    and "attr d m ''aria-labelledby'' = Some i"
  shows "m \<in> set ms \<Longrightarrow> m_page s = d \<Longrightarrow> thrown (bind_each ms s) \<noteq> None"
proof (induction ms arbitrary: s)
  case Nil
  then show ?case by simp
next
  case (Cons x ms)
  show ?case
  proof (cases "bind_one x s")
    case (Inl e)
    then show ?thesis by (cases e) simp
  next
    case (Inr s1)
    have page: "m_page s1 = d" using bind_one_frame [of s x] Inr Cons.prems(2) by (simp add: m_frame_def)
    have "x \<noteq> m"
    proof
      assume "x = m"
      then have "thrown (bind_one x s) \<noteq> None"
        using no_trigger_bind_one [of s i m] assms Cons.prems(2) by simp
      then show False using Inr by simp
    qed
    then have "m \<in> set ms" using Cons.prems(1) by simp
    from Cons.IH [OF this page] show ?thesis using Inr by simp
  qed
qed


lemma missing_trigger_page_ids:
  "list_all (\<lambda>r. \<not> (isConnected missing_trigger_page r \<and>
                      attr missing_trigger_page r ''id'' = Some ''open-b''))
     (nodes missing_trigger_page)"
  by code_simp


subsection \<open>Modal: the closing loop\<close>

lemma closing_refl [simp]: "closing s s"
  by (simp add: closing_def)

lemma closing_trans: "closing s s' \<Longrightarrow> closing s' s'' \<Longrightarrow> closing s s''"
  unfolding closing_def using same_tree_trans by (auto simp: same_tree_def)

lemma trigger_of_cong:
  assumes "same_tree d d'" and "\<And>r a. a \<noteq> ''open'' \<Longrightarrow> attr d' r a = attr d r a"
  shows "trigger_of d' m = trigger_of d m"
proof -
  have a: "attr d' m ''aria-labelledby'' = attr d m ''aria-labelledby''" using assms(2) by simp
  have "doc_querySelectorAll d' (ById i) = doc_querySelectorAll d (ById i)" for i
    by (rule doc_querySelectorAll_cong [OF assms(1)]) (simp add: assms(2))
  then show ?thesis
    by (simp add: trigger_of_def a id_selector_def doc_querySelector_def)
qed

lemma closing_trigger_of: "closing s s' \<Longrightarrow> trigger_of (m_page s') m = trigger_of (m_page s) m"
  by (rule trigger_of_cong) (simp_all add: closing_def)

lemma closing_tag: "closing s s' \<Longrightarrow> tag (m_page s') = tag (m_page s)"
  by (simp add: closing_def same_tree_def)

lemma abort_again:
  "abort_signal k (abort_signal t (abort_signal k (abort_signal t ls))) =
   abort_signal k (abort_signal t ls)"
  by (cases k; cases t) (auto simp: abort_signal_def intro: filter_cong)

lemma close_dialog_shape:
  assumes "tag d m = ''dialog''"
  shows "\<exists>d'. close_dialog m d = Inr d' \<and> same_tree d d' \<and> active d' = active d \<and>
           attr d' m ''open'' = None \<and>
           (\<forall>r a. a \<noteq> ''open'' \<longrightarrow> attr d' r a = attr d r a) \<and>
           (\<forall>r. attr d r ''open'' = None \<longrightarrow> attr d' r ''open'' = None)"
  using assms by (auto simp: close_dialog_def same_tree_def removeAttribute_def)

lemma trigger_of_Some:
  assumes "trigger_of d m = Some t"
  shows "\<exists>sel. id_selector (template (attr d m ''aria-labelledby'')) = Inr sel \<and>
           doc_querySelector d sel = Some t \<and> isConnected d t"
  using assms found_in_document [of d _ t]
  by (auto simp: trigger_of_def split: sum.splits)

lemma close_one_ok:
  assumes "tag (m_page s) m = ''dialog''" and "trigger_of (m_page s) m = Some t"
  shows "\<exists>s'. close_one m s = Inr s' \<and> closing s s' \<and>
           attr (m_page s') m ''open'' = None \<and> active (m_page s') = Some t \<and>
           m_listeners s' =
             abort_signal (keydownController s)
               (abort_signal (trapFocusController s) (m_listeners s))"
proof -
  from trigger_of_Some [OF assms(2)] obtain sel where
    sel: "id_selector (template (attr (m_page s) m ''aria-labelledby'')) = Inr sel"
    and q: "doc_querySelector (m_page s) sel = Some t" and c: "isConnected (m_page s) t"
    by blast
  let ?d1 = "focus t (m_page s)"
  have "tag ?d1 m = ''dialog''" using assms(1) by simp
  from close_dialog_shape [OF this] obtain d' where
    d': "close_dialog m ?d1 = Inr d'" "same_tree ?d1 d'" "active d' = active ?d1"
      "attr d' m ''open'' = None"
      "\<forall>r a. a \<noteq> ''open'' \<longrightarrow> attr d' r a = attr ?d1 r a"
      "\<forall>r. attr ?d1 r ''open'' = None \<longrightarrow> attr d' r ''open'' = None"
    by blast
  let ?s' = "s\<lparr>m_page := d',
               m_listeners := abort_signal (keydownController s)
                 (abort_signal (trapFocusController s) (m_listeners s))\<rparr>"
  have "close_one m s = Inr ?s'" using sel q d'(1) by (simp add: close_one_def)
  moreover have "closing s ?s'"
    using d'(2,5,6) same_tree_trans [OF same_tree_after(3) d'(2)]
    by (simp add: closing_def)
  moreover have "active (m_page ?s') = Some t" using d'(3) c by simp
  ultimately show ?thesis using d'(4) by auto
qed

lemma close_each_ok:
  assumes "\<And>m. m \<in> set ms \<Longrightarrow>
             tag (m_page s) m = ''dialog'' \<and> trigger_of (m_page s) m \<noteq> None"
  shows "\<exists>s'. close_each ms s = Inr s' \<and> closing s s' \<and>
           (\<forall>m\<in>set ms. attr (m_page s') m ''open'' = None) \<and>
           (if ms = [] then s' = s
            else active (m_page s') = trigger_of (m_page s) (last ms) \<and>
                 m_listeners s' =
                   abort_signal (keydownController s)
                     (abort_signal (trapFocusController s) (m_listeners s)))"
  using assms
proof (induction ms arbitrary: s)
  case Nil
  then show ?case by simp
next
  case (Cons m ms)
  from Cons.prems [of m] obtain t where
    tg: "tag (m_page s) m = ''dialog''" and tr: "trigger_of (m_page s) m = Some t" by auto
  from close_one_ok [OF tg tr] obtain s1 where
    s1: "close_one m s = Inr s1" "closing s s1" "attr (m_page s1) m ''open'' = None"
      "active (m_page s1) = Some t"
      "m_listeners s1 = abort_signal (keydownController s)
         (abort_signal (trapFocusController s) (m_listeners s))"
    by blast
  have pre: "tag (m_page s1) x = ''dialog'' \<and> trigger_of (m_page s1) x \<noteq> None"
    if "x \<in> set ms" for x
    using Cons.prems [of x] that closing_trigger_of [OF s1(2)] closing_tag [OF s1(2)] by simp
  from Cons.IH [OF pre] obtain s' where
    s': "close_each ms s1 = Inr s'" "closing s1 s'"
      "\<forall>x\<in>set ms. attr (m_page s') x ''open'' = None"
      "if ms = [] then s' = s1
       else active (m_page s') = trigger_of (m_page s1) (last ms) \<and>
            m_listeners s' = abort_signal (keydownController s1)
              (abort_signal (trapFocusController s1) (m_listeners s1))"
    by blast
  have run: "close_each (m # ms) s = Inr s'" using s1(1) s'(1) by simp
  have cl: "closing s s'" by (rule closing_trans [OF s1(2) s'(2)])
  have m_closed: "attr (m_page s') m ''open'' = None"
    using s1(3) s'(2) by (simp add: closing_def)
  have ctl: "keydownController s1 = keydownController s"
    "trapFocusController s1 = trapFocusController s"
    using s1(2) by (simp_all add: closing_def)
  have fin: "active (m_page s') = trigger_of (m_page s) (last (m # ms)) \<and>
             m_listeners s' = abort_signal (keydownController s)
               (abort_signal (trapFocusController s) (m_listeners s))"
  proof (cases "ms = []")
    case True
    then show ?thesis using s'(4) s1(4,5) tr by simp
  next
    case False
    then show ?thesis
      using s'(4) closing_trigger_of [OF s1(2)] s1(5) ctl abort_again by simp
  qed
  show ?case using run cl m_closed s'(3) fin by auto
qed

lemma close_each_prefix:
  assumes "\<And>m. m \<in> set ms \<Longrightarrow>
             tag (m_page s) m = ''dialog'' \<and> trigger_of (m_page s) m \<noteq> None"
    and k: "k < length ms"
  shows "active (m_page (final (close_each (take (Suc k) ms) s))) = trigger_of (m_page s) (ms ! k)"
proof -
  let ?ms = "take (Suc k) ms"
  have sub: "x \<in> set ms" if "x \<in> set ?ms" for x
    using that by (rule in_set_takeD)
  have ne: "?ms \<noteq> []" using k by auto
  have la: "last ?ms = ms ! k" using k by (simp add: take_Suc_conv_app_nth)
  from close_each_ok [of ?ms s] assms(1) sub obtain s1 where
    "close_each ?ms s = Inr s1"
    "if ?ms = [] then s1 = s
     else active (m_page s1) = trigger_of (m_page s) (last ?ms) \<and>
          m_listeners s1 = abort_signal (keydownController s)
            (abort_signal (trapFocusController s) (m_listeners s))"
    by blast
  then show ?thesis using ne la by simp
qed


lemma opened_state_dialogs:
  "list_all (\<lambda>m. tag (m_page opened_state) m = ''dialog'' \<and>
                  trigger_of (m_page opened_state) m \<noteq> None) (modals opened_state)"
  by code_simp


subsection \<open>Modal: opening, then closing\<close>

lemma showModal_shape:
  assumes "showModal m d = Inr d1"
  shows "same_tree d d1 \<and> (\<forall>r a. a \<noteq> ''open'' \<longrightarrow> attr d1 r a = attr d r a) \<and>
         active d1 = active d \<and> tag d m = ''dialog''"
  using assms
  by (auto simp: showModal_def same_tree_def setAttribute_def split: if_splits)

lemma showModal_closed:
  assumes "tag d m = ''dialog''" "attr d m ''open'' = None" "isConnected d m"
  shows "showModal m d = Inr ((setAttribute m ''open'' [] d)\<lparr>is_modal := (is_modal d)(m := True)\<rparr>)"
  using assms by (simp add: showModal_def)

lemma openModal_shape:
  assumes "openModal m s = Inr s1"
  shows "\<exists>d1 title inner.
           showModal m (m_page s) = Inr d1 \<and>
           querySelector (m_page s) m (ByTag ''h3'') = Some title \<and>
           querySelector (m_page s) m (ByClass ''modal__inner'') = Some inner \<and>
           s1 = s\<lparr>m_page := focus title d1,
                  trapFocusController := Some (controllers s),
                  keydownController := Some (controllers s + 1),
                  controllers := controllers s + 2,
                  m_listeners := m_listeners s @ opened_listeners m inner (controllers s)\<rparr>"
  using assms unfolding openModal_def Let_def opened_listeners_def
  by (auto simp: m_add_listener_new split: sum.splits option.splits)

lemma abort_opened:
  assumes "\<And>l. l \<in> set ls \<Longrightarrow> signal l = None"
  shows "abort_signal (Some (c + 1)) (abort_signal (Some c) (ls @ opened_listeners m inner c)) = ls"
proof -
  have "filter (\<lambda>l. signal l \<noteq> Some c) ls = ls" "filter (\<lambda>l. signal l \<noteq> Some (c + 1)) ls = ls"
    using assms by (simp_all add: filter_id_conv)
  then show ?thesis by (simp add: abort_signal_def opened_listeners_def)
qed



subsection \<open>Modal: the focus trap\<close>

lemma focusables_cong:
  assumes "same_tree d d'" and "\<And>r a. a \<noteq> ''open'' \<Longrightarrow> attr d' r a = attr d r a"
  shows "getKeyboardFocusableElements d' m = getKeyboardFocusableElements d m"
proof -
  have "querySelectorAll d' m focusable_selector = querySelectorAll d m focusable_selector"
    by (rule querySelectorAll_cong [OF assms(1)])
      (auto simp: focusable_selector_def assms(2))
  then show ?thesis by (simp add: getKeyboardFocusableElements_def assms(2))
qed

lemma focusables_characterised:
  "getKeyboardFocusableElements d m =
     filter (\<lambda>r. m \<in> set (anc d r) \<and>
                 (tag d r \<in> {''a'', ''button'', ''input'', ''textarea'', ''select'', ''details''} \<or>
                  (attr d r ''tabindex'' \<noteq> None \<and> attr d r ''tabindex'' \<noteq> Some ''-1'')) \<and>
                 attr d r ''disabled'' = None) (nodes d)"
  unfolding getKeyboardFocusableElements_def querySelectorAll_def focusable_selector_def
  by (auto intro!: filter_cong)

lemma focusable_inside:
  "r \<in> set (getKeyboardFocusableElements d m) \<Longrightarrow> m \<in> set (anc d r) \<and> r \<in> set (nodes d)"
  by (simp add: getKeyboardFocusableElements_def querySelectorAll_def)

lemma first_hd: "xs \<noteq> [] \<Longrightarrow> first xs = Some (hd xs)"
  by (cases xs) (simp_all add: first_def)

lemma last_of_last: "xs \<noteq> [] \<Longrightarrow> last_of xs = Some (last xs)"
  by (cases xs) (simp_all add: last_of_def)

lemma trapFocus_forward:
  assumes "getKeyboardFocusableElements (m_page s) m = fs" and "fs \<noteq> []"
    and "active (m_page s) = Some (last fs)"
    and "ev_key ev = ''Tab''" and "\<not> ev_shift ev"
    and "isConnected (m_page s) (hd fs)"
  shows "m_prevented (trapFocus ev m s) \<and> active (m_page (trapFocus ev m s)) = Some (hd fs)"
  using assms by (simp add: trapFocus_def first_hd last_of_last Let_def)

lemma trapFocus_backward:
  assumes "getKeyboardFocusableElements (m_page s) m = fs" and "fs \<noteq> []"
    and "active (m_page s) = Some (hd fs)"
    and "ev_key ev = ''Tab''" and "ev_shift ev"
    and "isConnected (m_page s) (last fs)"
  shows "m_prevented (trapFocus ev m s) \<and> active (m_page (trapFocus ev m s)) = Some (last fs)"
  using assms by (simp add: trapFocus_def first_hd last_of_last Let_def)

lemma trapFocus_frame:
  "m_listeners (trapFocus ev m s) = m_listeners s \<and> m_stopped (trapFocus ev m s) = m_stopped s"
  by (simp add: trapFocus_def Let_def split: option.splits)

lemma dispatch_path_skip:
  assumes "\<And>t. t \<in> set ts \<Longrightarrow>
             run_listeners cur h (filter (\<lambda>l. on_target l = t \<and> on_type l = ty) (cur s)) s = s"
    and "\<not> stp s"
  shows "dispatch_path cur stp h ty (ts @ rest) s = dispatch_path cur stp h ty rest s"
  using assms(1)
proof (induction ts)
  case Nil
  then show ?case by simp
next
  case (Cons t ts)
  have "run_listeners cur h (filter (\<lambda>l. on_target l = t \<and> on_type l = ty) (cur s)) s = s"
    using Cons.prems by simp
  moreover have "dispatch_path cur stp h ty (ts @ rest) s = dispatch_path cur stp h ty rest s"
    using Cons by simp
  ultimately show ?case using assms(2) by (simp add: Let_def)
qed

lemma keydown_in_open_modal:
  assumes quiet: "\<And>l. l \<in> set ls \<Longrightarrow> on_type l \<noteq> ''keydown''"
    and ls: "m_listeners s = ls @ opened_listeners m inner c"
    and key: "ev_key ev \<noteq> ''Escape''"
    and tgt: "ev_target ev = Node r"
  shows "m_dispatch ''keydown'' ev s =
           trapFocus ev m (s\<lparr>m_prevented := False, m_stopped := False\<rparr>)"
proof -
  define sB where "sB = s\<lparr>m_prevented := False, m_stopped := False\<rparr>"
  have lB: "m_listeners sB = ls @ opened_listeners m inner c" and stB: "\<not> m_stopped sB"
    and pB: "m_page sB = m_page s"
    by (simp_all add: sB_def ls)
  have none: "filter (\<lambda>l. on_target l = t \<and> on_type l = ''keydown'') ls = []" for t
    using quiet by (auto simp: filter_empty_conv)
  have esc: "m_handle ev EscapeClose sB = sB" using key by (simp add: m_handle_def)
  have at_node: "run_listeners m_listeners (m_handle ev)
      (filter (\<lambda>l. on_target l = t \<and> on_type l = ''keydown'') (m_listeners sB)) sB = sB"
    if "t \<in> set (map Node (r # anc (m_page s) r))" for t
  proof -
    from that obtain x where t: "t = Node x" by auto
    show ?thesis
      unfolding lB t using none [of "Node x"] esc
      by (cases "x = m") (simp_all add: opened_listeners_def lB)
  qed
  define sC where "sC = trapFocus ev m sB"
  have lC: "m_listeners sC = ls @ opened_listeners m inner c" and stC: "\<not> m_stopped sC"
    using trapFocus_frame [of ev m sB] lB stB by (simp_all add: sC_def)
  have at_doc: "run_listeners m_listeners (m_handle ev)
      (filter (\<lambda>l. on_target l = Document \<and> on_type l = ''keydown'') (m_listeners sB)) sB = sC"
    unfolding lB using none [of Document]
    by (simp add: opened_listeners_def lB m_handle_def sC_def)
  have at_win: "filter (\<lambda>l. on_target l = Window \<and> on_type l = ''keydown'') (m_listeners sC) = []"
    unfolding lC using none [of Window] by (simp add: opened_listeners_def)
  have "m_dispatch ''keydown'' ev s =
      dispatch_path m_listeners m_stopped (m_handle ev) ''keydown''
        (map Node (r # anc (m_page s) r) @ [Document, Window]) sB"
    by (simp add: m_dispatch_def propagation_path_def tgt sB_def)
  also have "\<dots> = dispatch_path m_listeners m_stopped (m_handle ev) ''keydown''
        [Document, Window] sB"
    using at_node stB
    by (intro dispatch_path_skip [where cur = m_listeners and stp = m_stopped and s = sB
          and h = "m_handle ev" and ts = "map Node (r # anc (m_page s) r)"]) blast+
  also have "\<dots> = sC"
    using at_doc at_win stC by (simp add: Let_def)
  finally show ?thesis by (simp add: sC_def sB_def)
qed


lemma bound_state_quiet:
  "list_all (\<lambda>l. on_type l \<noteq> ''keydown'') (m_listeners bound_state)"
  by code_simp


subsection \<open>Skip links\<close>

text \<open>
  The keydown handler, where it runs, resolves the target in three steps: the element
  with the id of the anchor's target, else the first \<open>h1\<close>, else a warning and nothing
  more.
\<close>

lemma skiplink_keydown_resolution:
  assumes "closest (sl_page s) t (ByTag ''a'') = Some a"
    and "attr (sl_page s) t ''href'' = Some (CHR ''#'' # i)" and "css_ident i"
  shows "(case doc_querySelector (sl_page s) (ById i) of
            Some x \<Rightarrow>
              thrown (skiplink_keydown (keydown_at t ''Enter'' sh) s) = None \<and>
              active (sl_page (final (skiplink_keydown (keydown_at t ''Enter'' sh) s))) = Some x \<and>
              console_warnings (final (skiplink_keydown (keydown_at t ''Enter'' sh) s)) =
                console_warnings s
          | None \<Rightarrow>
              (case doc_querySelector (sl_page s) (ByTag ''h1'') of
                 Some h \<Rightarrow>
                   thrown (skiplink_keydown (keydown_at t ''Enter'' sh) s) = None \<and>
                   active (sl_page (final (skiplink_keydown (keydown_at t ''Enter'' sh) s))) =
                     Some h \<and>
                   console_warnings (final (skiplink_keydown (keydown_at t ''Enter'' sh) s)) =
                     console_warnings s
               | None \<Rightarrow>
                   thrown (skiplink_keydown (keydown_at t ''Enter'' sh) s) = None \<and>
                   sl_page (final (skiplink_keydown (keydown_at t ''Enter'' sh) s)) = sl_page s \<and>
                   console_warnings (final (skiplink_keydown (keydown_at t ''Enter'' sh) s)) =
                     console_warnings s @ [''SkipLinks are not set'']))"
proof -
  have sel: "href_selector (template (attr (sl_page s) t ''href'')) = Inr (ById i)"
    using assms(2,3) by (simp add: href_selector_def template_def id_selector_def)
  have foc: "active (focus x (setAttribute x ''tabindex'' ''-1'' (sl_page s))) = Some x"
    if "doc_querySelector (sl_page s) q = Some x" for q x
    using found_in_document [OF that] by simp
  show ?thesis
    using assms(1) sel foc
    by (auto simp: skiplink_keydown_def keydown_at_def split: option.splits)
qed

text \<open>A module script never gets as far as registering the handler.\<close>

lemma module_script_throws:
  "skiplinks_script ThisUndefined d =
     Inl (TypeError, \<lparr>sl_page = d, skipLink = None, sl_listeners = [],
                       console_warnings = [], sl_reported = []\<rparr>)"
  by (simp add: skiplinks_script_def dataset_classname_def)

text \<open>
  Claim C8 says that an Enter keydown on the skip link moves the focus to the target.
  The script registers its keydown handler only after its first statement, which reads
  \<open>this.dataset.classname\<close>. On the page as the component renders it that statement
  throws whatever \<open>this\<close> is: a \<open>TypeError\<close> at the top level of a module, where \<open>this\<close>
  is \<open>undefined\<close>, and in a classic script, where the window has no \<open>dataset\<close>; a
  \<open>SyntaxError\<close> if \<open>this\<close> were the component's block, whose \<open>data-classname\<close> is
  the text \<open>{className}\<close>, which makes no selector. No listener is registered, and an
  Enter keydown on the anchor leaves the focus where it was although the target
  \<open>main-content\<close> exists; the handler itself, had it been called, would have focused the
  target.
\<close>

theorem skip_link_listener_is_never_attached:
  "thrown (skiplinks_script ThisUndefined skiplinks_page) = Some TypeError \<and>
   thrown (skiplinks_script ThisWindow skiplinks_page) = Some TypeError \<and>
   attr skiplinks_page 2 ''data-classname'' = Some ''{className}'' \<and>
   thrown (skiplinks_script (ThisElement 2) skiplinks_page) = Some SyntaxError \<and>
   sl_listeners (final (skiplinks_script ThisUndefined skiplinks_page)) = [] \<and>
   sl_listeners (final (skiplinks_script ThisWindow skiplinks_page)) = [] \<and>
   sl_listeners (final (skiplinks_script (ThisElement 2) skiplinks_page)) = [] \<and>
   attr skiplinks_page 3 ''href'' = Some ''#main-content'' \<and>
   doc_querySelector skiplinks_page (ById ''main-content'') = Some 4 \<and>
   active (sl_page (sl_dispatch ''keydown'' (keydown_at 3 ''Enter'' False)
     (final (skiplinks_script ThisUndefined skiplinks_page)))) = None \<and>
   active (sl_page (final (skiplink_keydown (keydown_at 3 ''Enter'' False)
     (final (skiplinks_script ThisUndefined skiplinks_page))))) = Some 4"
  by code_simp

subsection \<open>The signal after a view swap\<close>

lemma dispatch_document_single:
  assumes one: "filter (\<lambda>l. on_target l = Document \<and> on_type l = ty) (cur s) = [l]"
    and none: "filter (\<lambda>l. on_target l = Window \<and> on_type l = ty) (cur (h (run l) s)) = []"
  shows "dispatch_path cur stp h ty [Document, Window] s = h (run l) s"
proof -
  have "l \<in> set (filter (\<lambda>l. on_target l = Document \<and> on_type l = ty) (cur s))"
    unfolding one by simp
  then have "l \<in> set (cur s)" by simp
  then show ?thesis using one none by (simp add: Let_def)
qed

text \<open>Dark mode: the handler resolves the state from the store.\<close>

lemma darkmode_resolution:
  assumes "document_body (dm_page s) = Some b"
  shows "isDarkMode (dm_page (final (apply_preference s))) =
           (if darkMode s = Some ''enabled'' then True
            else if darkMode s = Some ''disabled'' then False
            else prefers_dark s)"
  using assms
  by (auto simp: apply_preference_def checkPreference_def enableDarkMode_def
      disableDarkMode_def isDarkMode_def final_def setItem_def Let_def split: option.splits)

lemma dm_handle_after_swap:
  assumes "document_body (dm_page s) = Some b"
  shows "isDarkMode (dm_page (dm_handle DarkModeAfterSwap s)) =
           (if storage s ''darkMode'' = Some ''enabled'' then True
            else if storage s ''darkMode'' = Some ''disabled'' then False
            else prefers_dark s)"
proof -
  define s' where "s' = s\<lparr>darkMode := (if storage s ''darkMode'' = None \<or>
      storage s ''darkMode'' = Some [] then None else storage s ''darkMode'')\<rparr>"
  have b: "document_body (dm_page s') = Some b" using assms by (simp add: s'_def)
  have "dm_page (dm_handle DarkModeAfterSwap s) = dm_page (final (apply_preference s'))"
    by (cases "apply_preference s'")
      (auto simp: dm_handle_def darkmode_after_swap_def Let_def s'_def final_def)
  then show ?thesis using darkmode_resolution [OF b] by (auto simp: s'_def)
qed

lemma dm_preference_listeners:
  "dm_listeners (final (enableDarkMode st s)) = dm_listeners s"
  "dm_listeners (final (disableDarkMode st s)) = dm_listeners s"
  "dm_listeners (final (apply_preference s)) = dm_listeners s"
  by (auto simp: apply_preference_def checkPreference_def enableDarkMode_def
      disableDarkMode_def final_def setItem_def Let_def split: option.splits)

lemma dm_handle_listeners: "dm_listeners (dm_handle h s) = dm_listeners s"
proof (cases h)
  case ToggleClick
  have "dm_listeners (final (toggle_click s)) = dm_listeners s"
    using dm_preference_listeners(1,2) [of True s]
    by (auto simp: toggle_click_def final_def split: option.splits)
  then show ?thesis using ToggleClick
    by (cases "toggle_click s") (auto simp: dm_handle_def final_def)
next
  case DarkModeAfterSwap
  define s' where "s' = s\<lparr>darkMode := (if storage s ''darkMode'' = None \<or>
      storage s ''darkMode'' = Some [] then None else storage s ''darkMode'')\<rparr>"
  have "dm_listeners (final (apply_preference s')) = dm_listeners s"
    using dm_preference_listeners(3) [of s'] by (simp add: s'_def)
  then show ?thesis using DarkModeAfterSwap
    by (cases "apply_preference s'")
      (auto simp: dm_handle_def darkmode_after_swap_def Let_def s'_def final_def)
qed

lemma darkmode_script_listeners:
  assumes "darkmode_script d st os = Inr t0"
  shows "\<exists>t. dm_listeners t0 =
           [\<lparr>on_target = Node t, on_type = ''click'', run = ToggleClick, signal = None\<rparr>,
            \<lparr>on_target = Document, on_type = ''astro:after-swap'', run = DarkModeAfterSwap,
              signal = None\<rparr>]"
proof -
  define s where "s = \<lparr>dm_page = d, storage = st, set_calls = [], prefers_dark = os,
                darkMode = st ''darkMode'',
                darkModeToggle = doc_querySelector d (ByClass ''darkmode-toggle''),
                dm_listeners = [], dm_reported = []\<rparr>"
  have script: "darkmode_script d st os =
      and_then (apply_preference s) (\<lambda>s1.
           (case darkModeToggle s1 of
              None \<Rightarrow> Inl (TypeError, s1)
            | Some t \<Rightarrow>
                Inr (dm_add_listener Document ''astro:after-swap'' DarkModeAfterSwap
                      (dm_add_listener (Node t) ''click'' ToggleClick s1))))"
    unfolding darkmode_script_def Let_def s_def [symmetric] ..
  from assms obtain s1 t where
    s1: "apply_preference s = Inr s1" and t: "darkModeToggle s1 = Some t"
    and t0: "t0 = dm_add_listener Document ''astro:after-swap'' DarkModeAfterSwap
                    (dm_add_listener (Node t) ''click'' ToggleClick s1)"
    unfolding script by (cases "apply_preference s") (auto split: option.splits)
  have "dm_listeners s1 = []"
    using dm_preference_listeners(3) [of s] s1 by (simp add: s_def)
  then show ?thesis unfolding t0 by (simp add: dm_add_listener_def)
qed

lemma darkmode_after_swap_dispatch:
  assumes "darkmode_script d st os = Inr t0" and "dm_listeners t = dm_listeners t0"
  shows "dm_dispatch ''astro:after-swap'' swap_event t = dm_handle DarkModeAfterSwap t"
proof -
  from darkmode_script_listeners [OF assms(1)] obtain x where
    ls: "dm_listeners t =
           [\<lparr>on_target = Node x, on_type = ''click'', run = ToggleClick, signal = None\<rparr>,
            \<lparr>on_target = Document, on_type = ''astro:after-swap'', run = DarkModeAfterSwap,
              signal = None\<rparr>]"
    using assms(2) by auto
  have "dispatch_path dm_listeners (\<lambda>s. False) dm_handle ''astro:after-swap''
          [Document, Window] t =
        dm_handle (run \<lparr>on_target = Document, on_type = ''astro:after-swap'',
                        run = DarkModeAfterSwap, signal = None\<rparr>) t"
    by (rule dispatch_document_single) (simp_all add: ls dm_handle_listeners)
  then show ?thesis
    by (simp add: dm_dispatch_def propagation_path_def swap_event_def)
qed

text \<open>Accordion and skip links: the scripts register keydown listeners only.\<close>

lemma accordion_script_listeners:
  "l \<in> set (acc_listeners (final (accordion_script d))) \<Longrightarrow> on_type l = ''keydown''"
  by (auto simp: accordion_script_def acc_add_listener_def Let_def final_def
      split: sum.splits)

lemma skiplinks_script_listeners:
  "l \<in> set (sl_listeners (final (skiplinks_script this d))) \<Longrightarrow> on_type l = ''keydown''"
  by (auto simp: skiplinks_script_def Let_def final_def split: sum.splits option.splits)

lemma accordion_after_swap_dispatch:
  assumes "acc_listeners s = acc_listeners (final (accordion_script d))"
  shows "acc_dispatch ''astro:after-swap'' ev s = s\<lparr>acc_prevented := False\<rparr>"
  unfolding acc_dispatch_def
  by (rule dispatch_path_no_listener)
    (use accordion_script_listeners [of _ d] assms in auto)

lemma skiplinks_after_swap_dispatch:
  assumes "sl_listeners s = sl_listeners (final (skiplinks_script this d))"
  shows "sl_dispatch ''astro:after-swap'' ev s = s"
  unfolding sl_dispatch_def
  by (rule dispatch_path_no_listener)
    (use skiplinks_script_listeners [of _ this d] assms in auto)

text \<open>Modal: the handler binds the dialogs of the document.\<close>

lemma bind_one_ok:
  assumes "trigger_of (m_page s) m = Some t"
    and "querySelector (m_page s) m (Inside (ByClass ''modal__close'') (ByTag ''button'')) = Some b"
  shows "bind_one m s =
           Inr (m_add_listener (Node b) ''click'' CloseModal None
                  (m_add_listener (Node t) ''click'' (OpenModal m) None s))"
proof -
  from trigger_of_Some [OF assms(1)] obtain sel where
    "id_selector (template (attr (m_page s) m ''aria-labelledby'')) = Inr sel"
    "doc_querySelector (m_page s) sel = Some t"
    by blast
  then show ?thesis using assms(2) by (simp add: bind_one_def Let_def)
qed

lemma bound_to_mono:
  "bound_to s d m \<Longrightarrow> set (m_listeners s) \<subseteq> set (m_listeners s') \<Longrightarrow> bound_to s' d m"
  by (auto simp: bound_to_def list_ex_iff split: option.splits)

lemma bind_each_binds:
  assumes "\<And>m. m \<in> set ms \<Longrightarrow>
             trigger_of (m_page s) m \<noteq> None \<and>
             querySelector (m_page s) m (Inside (ByClass ''modal__close'') (ByTag ''button''))
               \<noteq> None"
  shows "\<exists>s'. bind_each ms s = Inr s' \<and> (\<forall>m\<in>set ms. bound_to s' (m_page s) m)"
  using assms
proof (induction ms arbitrary: s)
  case Nil
  then show ?case by simp
next
  case (Cons m ms)
  from Cons.prems [of m] obtain t b where
    t: "trigger_of (m_page s) m = Some t"
    and b: "querySelector (m_page s) m (Inside (ByClass ''modal__close'') (ByTag ''button''))
              = Some b"
    by auto
  define s1 where "s1 = m_add_listener (Node b) ''click'' CloseModal None
                  (m_add_listener (Node t) ''click'' (OpenModal m) None s)"
  have one: "bind_one m s = Inr s1" unfolding s1_def by (rule bind_one_ok [OF t b])
  have page1: "m_page s1 = m_page s" by (simp add: s1_def)
  have "\<lparr>on_target = Node t, on_type = ''click'', run = OpenModal m, signal = None\<rparr>
          \<in> set (m_listeners (m_add_listener (Node t) ''click'' (OpenModal m) None s))"
    by (simp add: m_add_listener_new)
  then have op: "\<lparr>on_target = Node t, on_type = ''click'', run = OpenModal m, signal = None\<rparr>
          \<in> set (m_listeners s1)"
    unfolding s1_def using m_add_listener_subset by blast
  have "bound_to s1 (m_page s) m"
    using op m_add_listener_present [of "Node b" "''click''" CloseModal None] t b
    by (simp add: bound_to_def s1_def)
  moreover
  from Cons.IH [of s1] Cons.prems page1 obtain s' where
    s': "bind_each ms s1 = Inr s'" "\<forall>x\<in>set ms. bound_to s' (m_page s) x"
    by auto
  moreover have "set (m_listeners s1) \<subseteq> set (m_listeners s')"
    using bind_each_frame [of s1 ms] s'(1) by (simp add: m_frame_def)
  ultimately have "bound_to s' (m_page s) m" using bound_to_mono by blast
  then show ?case using one s' by simp
qed

lemma script_listeners:
  assumes "modal_script d = Inr s0"
  shows "\<exists>ls. m_listeners s0 = ls @
           [\<lparr>on_target = Document, on_type = ''astro:after-swap'', run = ModalAfterSwap,
             signal = None\<rparr>] \<and> (\<forall>l\<in>set ls. on_type l = ''click'')"
proof -
  define s where "s = \<lparr>m_page = d, modals = doc_querySelectorAll d (ByClass ''modal''),
               trapFocusController = None, keydownController = None, controllers = 0,
               m_listeners = [], window_close = None, m_prevented = False,
               m_stopped = False, m_reported = []\<rparr>"
  have script: "modal_script d =
      and_then (bind_each (modals s) s)
        (\<lambda>s1. Inr (m_add_listener Document ''astro:after-swap'' ModalAfterSwap None
                      (s1\<lparr>window_close := Some CloseModal\<rparr>)))"
    unfolding modal_script_def Let_def s_def [symmetric] ..
  from assms obtain s1 where
    s1: "bind_each (modals s) s = Inr s1"
    and s0: "s0 = m_add_listener Document ''astro:after-swap'' ModalAfterSwap None
                    (s1\<lparr>window_close := Some CloseModal\<rparr>)"
    unfolding script by (cases "bind_each (modals s) s") auto
  have "on_type l = ''click''" if "l \<in> set (m_listeners s1)" for l
    using bind_each_listeners [of l "modals s" s] that s1 by (auto simp: s_def)
  moreover have "m_listeners s0 = m_listeners s1 @
      [\<lparr>on_target = Document, on_type = ''astro:after-swap'', run = ModalAfterSwap,
        signal = None\<rparr>]"
    unfolding s0 by (simp add: m_add_listener_new)
  ultimately show ?thesis by blast
qed

lemma m_handle_after_swap_listeners:
  assumes "l \<in> set (m_listeners (m_handle ev ModalAfterSwap s))"
  shows "l \<in> set (m_listeners s) \<or> on_type l = ''click''"
proof -
  have "m_listeners (m_handle ev ModalAfterSwap s) =
        m_listeners (final (bind_each (doc_querySelectorAll (m_page s) (ByClass ''modal'')) s))"
    by (cases "bind_each (doc_querySelectorAll (m_page s) (ByClass ''modal'')) s")
      (auto simp: m_handle_def modal_after_swap_def)
  then show ?thesis using assms bind_each_listeners by fastforce
qed

lemma modal_after_swap_dispatch:
  assumes "modal_script d = Inr s0" and "m_listeners s = m_listeners s0"
  shows "m_dispatch ''astro:after-swap'' swap_event s =
           m_handle swap_event ModalAfterSwap (s\<lparr>m_prevented := False, m_stopped := False\<rparr>)"
proof -
  define sB where "sB = s\<lparr>m_prevented := False, m_stopped := False\<rparr>"
  define asl :: "modal_handler listener" where
    "asl = \<lparr>on_target = Document, on_type = ''astro:after-swap'', run = ModalAfterSwap,
             signal = None\<rparr>"
  from script_listeners [OF assms(1)] obtain ls where
    ls: "m_listeners sB = ls @ [asl]" and clicks: "\<forall>l\<in>set ls. on_type l = ''click''"
    using assms(2) by (auto simp: sB_def asl_def)
  have no_click: "filter (\<lambda>l. on_target l = t \<and> on_type l = ''astro:after-swap'') ls = []"
    for t using clicks by (auto simp: filter_empty_conv)
  have one: "filter (\<lambda>l. on_target l = Document \<and> on_type l = ''astro:after-swap'')
               (m_listeners sB) = [asl]"
    unfolding ls using no_click by (simp add: asl_def)
  have none: "filter (\<lambda>l. on_target l = Window \<and> on_type l = ''astro:after-swap'')
               (m_listeners (m_handle swap_event (run asl) sB)) = []"
  proof -
    have "\<not> (on_target l = Window \<and> on_type l = ''astro:after-swap'')"
      if "l \<in> set (m_listeners (m_handle swap_event ModalAfterSwap sB))" for l
      using m_handle_after_swap_listeners [OF that] ls clicks by (auto simp: asl_def)
    then show ?thesis by (auto simp: filter_empty_conv asl_def)
  qed
  have "dispatch_path m_listeners m_stopped (m_handle swap_event) ''astro:after-swap''
          [Document, Window] sB = m_handle swap_event (run asl) sB"
    using one none by (rule dispatch_document_single)
  then show ?thesis
    by (simp add: m_dispatch_def propagation_path_def swap_event_def sB_def asl_def)
qed

text \<open>
  Claim C9 says that every widget binds again when the host signals a view swap. The
  accordion script registers no listener for the signal. On the accordion page the
  script collects the items 4 and 9; after a swap to the page whose only item is 30, the
  signal leaves \<open>accordionItems\<close> at 4 and 9, the header 31 of the new item without an
  id, and the listeners as they were.
\<close>

theorem accordion_ignores_view_swap:
  "thrown (accordion_script accordion_page) = None \<and>
   accordionItems (final (accordion_script accordion_page)) = [4, 9] \<and>
   doc_querySelectorAll (view_swap accordion_page next_page) (ByClass ''accordion__item'') = [30] \<and>
   accordionItems (acc_dispatch ''astro:after-swap'' swap_event
     ((final (accordion_script accordion_page))
        \<lparr>acc_page := view_swap accordion_page next_page\<rparr>)) = [4, 9] \<and>
   attr (acc_page (acc_dispatch ''astro:after-swap'' swap_event
     ((final (accordion_script accordion_page))
        \<lparr>acc_page := view_swap accordion_page next_page\<rparr>))) 31 ''id'' = None \<and>
   map on_type (acc_listeners (acc_dispatch ''astro:after-swap'' swap_event
     ((final (accordion_script accordion_page))
        \<lparr>acc_page := view_swap accordion_page next_page\<rparr>))) = [''keydown'', ''keydown'']"
  by code_simp

text \<open>
  Claim C9 as amended. The modal script and the dark-mode script register a handler for
  \<open>astro:after-swap\<close>. When the signal is dispatched after the page has been replaced,
  the modal script's handler binds every dialog of the new document (provided each has
  its trigger and its close button) and reports no error; the dark-mode script's handler
  resolves the state from the store as the script does at load: the stored value, else
  the system preference. The accordion script and the skip-link script register no
  handler for the signal: dispatching it leaves their state as it was.
\<close>

theorem view_swap_handlers:
  assumes "modal_script d = Inr s0"
    and "\<And>m. m \<in> set (doc_querySelectorAll d' (ByClass ''modal'')) \<Longrightarrow>
           trigger_of d' m \<noteq> None \<and>
           querySelector d' m (Inside (ByClass ''modal__close'') (ByTag ''button'')) \<noteq> None"
    and "darkmode_script dd st os = Inr t0"
    and "document_body dd' = Some b"
  shows "(let s1 = m_dispatch ''astro:after-swap'' swap_event (s0\<lparr>m_page := d'\<rparr>)
          in m_reported s1 = [] \<and>
             (\<forall>m\<in>set (doc_querySelectorAll d' (ByClass ''modal'')). bound_to s1 d' m)) \<and>
         isDarkMode (dm_page (dm_dispatch ''astro:after-swap'' swap_event
            (t0\<lparr>dm_page := dd', storage := st', prefers_dark := os'\<rparr>))) =
           (if st' ''darkMode'' = Some ''enabled'' then True
            else if st' ''darkMode'' = Some ''disabled'' then False
            else os') \<and>
         acc_dispatch ''astro:after-swap'' swap_event
            ((final (accordion_script da))\<lparr>acc_page := da'\<rparr>) =
           (final (accordion_script da))\<lparr>acc_page := da', acc_prevented := False\<rparr> \<and>
         sl_dispatch ''astro:after-swap'' swap_event
            ((final (skiplinks_script this ds))\<lparr>sl_page := ds'\<rparr>) =
           (final (skiplinks_script this ds))\<lparr>sl_page := ds'\<rparr>"
proof -
  define sB where "sB = s0\<lparr>m_page := d', m_prevented := False, m_stopped := False\<rparr>"
  have disp: "m_dispatch ''astro:after-swap'' swap_event (s0\<lparr>m_page := d'\<rparr>) =
              m_handle swap_event ModalAfterSwap sB"
    using modal_after_swap_dispatch [OF assms(1), of "s0\<lparr>m_page := d'\<rparr>"]
    by (simp add: sB_def)
  have pB: "m_page sB = d'" and rB: "m_reported sB = []"
    using script_state [OF assms(1)] by (simp_all add: sB_def)
  from bind_each_binds [of "doc_querySelectorAll d' (ByClass ''modal'')" sB] assms(2) pB
  obtain s1 where
    s1: "bind_each (doc_querySelectorAll d' (ByClass ''modal'')) sB = Inr s1"
      "\<forall>m\<in>set (doc_querySelectorAll d' (ByClass ''modal'')). bound_to s1 d' m"
    by auto
  have "m_reported s1 = []"
    using bind_each_frame [of sB "doc_querySelectorAll d' (ByClass ''modal'')"] s1(1) rB
    by (simp add: m_frame_def)
  moreover have "m_handle swap_event ModalAfterSwap sB = s1"
    using s1(1) pB by (simp add: m_handle_def modal_after_swap_def)
  ultimately have modal: "(let s1 = m_dispatch ''astro:after-swap'' swap_event (s0\<lparr>m_page := d'\<rparr>)
          in m_reported s1 = [] \<and>
             (\<forall>m\<in>set (doc_querySelectorAll d' (ByClass ''modal'')). bound_to s1 d' m))"
    unfolding disp using s1(2) by simp
  define t where "t = t0\<lparr>dm_page := dd', storage := st', prefers_dark := os'\<rparr>"
  have "dm_dispatch ''astro:after-swap'' swap_event t = dm_handle DarkModeAfterSwap t"
    by (rule darkmode_after_swap_dispatch [OF assms(3)]) (simp add: t_def)
  moreover have "document_body (dm_page t) = Some b" using assms(4) by (simp add: t_def)
  ultimately have dark: "isDarkMode (dm_page (dm_dispatch ''astro:after-swap'' swap_event t)) =
           (if st' ''darkMode'' = Some ''enabled'' then True
            else if st' ''darkMode'' = Some ''disabled'' then False
            else os')"
    using dm_handle_after_swap [of t b] by (simp add: t_def)
  have acc: "acc_dispatch ''astro:after-swap'' swap_event
            ((final (accordion_script da))\<lparr>acc_page := da'\<rparr>) =
           (final (accordion_script da))\<lparr>acc_page := da', acc_prevented := False\<rparr>"
    using accordion_after_swap_dispatch [of "(final (accordion_script da))\<lparr>acc_page := da'\<rparr>" da]
    by simp
  have sl: "sl_dispatch ''astro:after-swap'' swap_event
            ((final (skiplinks_script this ds))\<lparr>sl_page := ds'\<rparr>) =
           (final (skiplinks_script this ds))\<lparr>sl_page := ds'\<rparr>"
    using skiplinks_after_swap_dispatch
      [of "(final (skiplinks_script this ds))\<lparr>sl_page := ds'\<rparr>" this ds]
    by simp
  show ?thesis using modal dark [unfolded t_def] acc sl by simp
qed

lemma next_page_dialogs:
  "list_all (\<lambda>m. trigger_of (view_swap modal_page next_page) m \<noteq> None \<and>
       querySelector (view_swap modal_page next_page) m
         (Inside (ByClass ''modal__close'') (ByTag ''button'')) \<noteq> None)
     (doc_querySelectorAll (view_swap modal_page next_page) (ByClass ''modal''))"
  by code_simp

theorem view_swap_handlers_witness:
  "modal_script modal_page = Inr bound_state \<and>
   doc_querySelectorAll (view_swap modal_page next_page) (ByClass ''modal'') = [23] \<and>
   trigger_of (view_swap modal_page next_page) 23 = Some 22 \<and>
   thrown (darkmode_script darkmode_page (\<lambda>k. None) True) = None \<and>
   document_body (view_swap darkmode_page next_page) = Some 21 \<and>
   m_reported (m_dispatch ''astro:after-swap'' swap_event
     (bound_state\<lparr>m_page := view_swap modal_page next_page\<rparr>)) = [] \<and>
   bound_to (m_dispatch ''astro:after-swap'' swap_event
     (bound_state\<lparr>m_page := view_swap modal_page next_page\<rparr>))
     (view_swap modal_page next_page) 23 \<and>
   \<not> isDarkMode (dm_page (dm_dispatch ''astro:after-swap'' swap_event
     ((final (darkmode_script darkmode_page (\<lambda>k. None) True))
        \<lparr>dm_page := view_swap darkmode_page next_page,
         storage := [''darkMode'' \<mapsto> ''disabled''], prefers_dark := True\<rparr>)))"
proof -
  have "thrown (modal_script modal_page) = None" by code_simp
  from completed [OF this] have script: "modal_script modal_page = Inr bound_state"
    by (simp add: bound_state_def)
  have dialogs: "doc_querySelectorAll (view_swap modal_page next_page) (ByClass ''modal'') = [23]"
    by code_simp
  have trig: "trigger_of (view_swap modal_page next_page) 23 = Some 22" by code_simp
  have markup: "trigger_of (view_swap modal_page next_page) m \<noteq> None \<and>
      querySelector (view_swap modal_page next_page) m
        (Inside (ByClass ''modal__close'') (ByTag ''button'')) \<noteq> None"
    if "m \<in> set (doc_querySelectorAll (view_swap modal_page next_page) (ByClass ''modal''))"
    for m using next_page_dialogs that by (auto simp: list_all_iff)
  have dm: "thrown (darkmode_script darkmode_page (\<lambda>k. None) True) = None" by code_simp
  from completed [OF this]
  have dark: "darkmode_script darkmode_page (\<lambda>k. None) True =
      Inr (final (darkmode_script darkmode_page (\<lambda>k. None) True))" .
  have body: "document_body (view_swap darkmode_page next_page) = Some 21" by code_simp
  show ?thesis
    using view_swap_handlers [where st' = "[''darkMode'' \<mapsto> ''disabled'']" and os' = True,
        OF script markup dark body]
      script dialogs trig dm body
    by (simp add: Let_def)
qed

end
